theory Spec2Isabelle
  imports Main "HOL-Library.Word"
begin

unbundle bit_operations_syntax

section \<open>The file-information API of goserve (server/api.go)\<close>

text \<open>
  The package wraps an HTTP handler with a middleware that answers requests below a base
  path with JSON descriptions of files and directories. This theory embeds the three
  layers of \<^verbatim>\<open>server/api.go\<close>: \<^verbatim>\<open>statsEndpoint\<close> (stat and open probe, with the
  classification of their errors), \<^verbatim>\<open>handleEndpoint\<close> (the JSON encoder of results and
  errors) and \<^verbatim>\<open>ServeAPI\<close> (the router in front of the inner handler).

  Go strings are byte strings, hence \<^typ>\<open>string\<close>. The operating system is an explicit
  state \<open>world\<close>: what stat and open answer for each path, and the trace of the system
  calls and log lines the code has issued. A panic is a value of the result type.
\<close>

subsection \<open>Package strings\<close>

definition HasPrefix :: "string \<Rightarrow> string \<Rightarrow> bool" where
  "HasPrefix s prefix = (length prefix \<le> length s \<and> take (length prefix) s = prefix)"

text \<open>\<^verbatim>\<open>strings.TrimRight\<close>, for a cutset of ASCII bytes (the code only passes \<^verbatim>\<open>"/"\<close>).\<close>

definition TrimRight :: "string \<Rightarrow> string \<Rightarrow> string" where
  "TrimRight s cutset = rev (dropWhile (\<lambda>c. c \<in> set cutset) (rev s))"

subsection \<open>Errors\<close>

text \<open>
  The error numbers that stat(2) and open(2) report, with the text of
  \<^verbatim>\<open>syscall.Errno.Error\<close> on Linux.
\<close>

datatype errno =
    EPERM | ENOENT | EIO | ENXIO | ENOMEM | EACCES | EFAULT | EBUSY | ENODEV | ENOTDIR
  | EINVAL | ENFILE | EMFILE | ENAMETOOLONG | ELOOP | EOVERFLOW

fun errno_Error :: "errno \<Rightarrow> string" where
  "errno_Error EPERM = ''operation not permitted''"
| "errno_Error ENOENT = ''no such file or directory''"
| "errno_Error EIO = ''input/output error''"
| "errno_Error ENXIO = ''no such device or address''"
| "errno_Error ENOMEM = ''cannot allocate memory''"
| "errno_Error EACCES = ''permission denied''"
| "errno_Error EFAULT = ''bad address''"
| "errno_Error EBUSY = ''device or resource busy''"
| "errno_Error ENODEV = ''no such device''"
| "errno_Error ENOTDIR = ''not a directory''"
| "errno_Error EINVAL = ''invalid argument''"
| "errno_Error ENFILE = ''too many open files in system''"
| "errno_Error EMFILE = ''too many open files''"
| "errno_Error ENAMETOOLONG = ''file name too long''"
| "errno_Error ELOOP = ''too many levels of symbolic links''"
| "errno_Error EOVERFLOW = ''value too large for defined data type''"

text \<open>\<^verbatim>\<open>Errno.Is(oserror.ErrNotExist)\<close> and \<^verbatim>\<open>Errno.Is(oserror.ErrPermission)\<close>.\<close>

definition errno_is_ErrNotExist :: "errno \<Rightarrow> bool" where
  "errno_is_ErrNotExist e = (e = ENOENT)"

definition errno_is_ErrPermission :: "errno \<Rightarrow> bool" where
  "errno_is_ErrPermission e = (e = EACCES \<or> e = EPERM)"

text \<open>\<^verbatim>\<open>os.ErrPermission.Error()\<close>: the sentinel is \<^verbatim>\<open>errors.New("permission denied")\<close>.\<close>

definition ErrPermission_Error :: string where
  "ErrPermission_Error = ''permission denied''"

definition StatusNotFound :: int where "StatusNotFound = 404"
definition StatusForbidden :: int where "StatusForbidden = 403"
definition StatusInternalServerError :: int where "StatusInternalServerError = 500"
definition StatusMovedPermanently :: int where "StatusMovedPermanently = 301"

text \<open>\<^verbatim>\<open>http.StatusText\<close>: the table of net/http; the empty string for any other code.\<close>

definition statusText_table :: "(int \<times> string) list" where
  "statusText_table =
    [(100, ''Continue''), (101, ''Switching Protocols''), (102, ''Processing''),
     (103, ''Early Hints''),
     (200, ''OK''), (201, ''Created''), (202, ''Accepted''),
     (203, ''Non-Authoritative Information''), (204, ''No Content''),
     (205, ''Reset Content''), (206, ''Partial Content''), (207, ''Multi-Status''),
     (208, ''Already Reported''), (226, ''IM Used''),
     (300, ''Multiple Choices''), (301, ''Moved Permanently''), (302, ''Found''),
     (303, ''See Other''), (304, ''Not Modified''), (305, ''Use Proxy''),
     (307, ''Temporary Redirect''), (308, ''Permanent Redirect''),
     (400, ''Bad Request''), (401, ''Unauthorized''), (402, ''Payment Required''),
     (403, ''Forbidden''), (404, ''Not Found''), (405, ''Method Not Allowed''),
     (406, ''Not Acceptable''), (407, ''Proxy Authentication Required''),
     (408, ''Request Timeout''), (409, ''Conflict''), (410, ''Gone''),
     (411, ''Length Required''), (412, ''Precondition Failed''),
     (413, ''Request Entity Too Large''), (414, ''Request URI Too Long''),
     (415, ''Unsupported Media Type''), (416, ''Requested Range Not Satisfiable''),
     (417, ''Expectation Failed''), (418, ''I'' @ [CHR 0x27] @ ''m a teapot''),
     (421, ''Misdirected Request''), (422, ''Unprocessable Entity''), (423, ''Locked''),
     (424, ''Failed Dependency''), (425, ''Too Early''), (426, ''Upgrade Required''),
     (428, ''Precondition Required''), (429, ''Too Many Requests''),
     (431, ''Request Header Fields Too Large''),
     (451, ''Unavailable For Legal Reasons''),
     (500, ''Internal Server Error''), (501, ''Not Implemented''), (502, ''Bad Gateway''),
     (503, ''Service Unavailable''), (504, ''Gateway Timeout''),
     (505, ''HTTP Version Not Supported''), (506, ''Variant Also Negotiates''),
     (507, ''Insufficient Storage''), (508, ''Loop Detected''), (510, ''Not Extended''),
     (511, ''Network Authentication Required'')]"

definition StatusText :: "int \<Rightarrow> string" where
  "StatusText code = (case map_of statusText_table code of Some s \<Rightarrow> s | None \<Rightarrow> [])"

text \<open>\<^verbatim>\<open>type StatError struct { Code int; Path string }\<close>\<close>

record StatError =
  Code :: int
  Path :: string

definition Message :: "StatError \<Rightarrow> string" where
  "Message err = (let msg = StatusText (Code err) in if msg = [] then ''unknown error'' else msg)"

definition NewStatError :: "int \<Rightarrow> string \<Rightarrow> StatError" where
  "NewStatError code path = \<lparr>Code = code, Path = path\<rparr>"

text \<open>
  The dynamic types an \<^verbatim>\<open>error\<close> value has in this program: \<^verbatim>\<open>*os.PathError\<close> (operation,
  path, cause), \<^verbatim>\<open>*StatError\<close>, and any other error, given by its text. The nil error is
  \<^const>\<open>None\<close> of \<open>go_error option\<close>.
\<close>

datatype go_error =
    PathError string string errno
  | StatErr StatError
  | ErrorString string

text \<open>\<^verbatim>\<open>strconv.FormatInt(i, 10)\<close>, which \<^verbatim>\<open>%d\<close> and the JSON encoder use for integers.\<close>

fun digits :: "nat \<Rightarrow> string" where
  "digits n =
     (if n < 10 then [''0123456789'' ! n]
      else digits (n div 10) @ [''0123456789'' ! (n mod 10)])"

declare digits.simps [simp del]

definition FormatInt :: "int \<Rightarrow> string" where
  "FormatInt i = (if i < 0 then ''-'' @ digits (nat (- i)) else digits (nat i))"

text \<open>The \<^verbatim>\<open>Error\<close> method of each dynamic type; \<^verbatim>\<open>StatError.Error\<close> is
  \<^verbatim>\<open>fmt.Sprintf("error %d: %s", err.Code, err.Message())\<close>.\<close>

fun Error :: "go_error \<Rightarrow> string" where
  "Error (PathError op p e) = op @ '' '' @ p @ '': '' @ errno_Error e"
| "Error (StatErr err) = ''error '' @ FormatInt (Code err) @ '': '' @ Message err"
| "Error (ErrorString s) = s"

text \<open>\<^verbatim>\<open>os.IsNotExist\<close>: false for nil; a \<^verbatim>\<open>*PathError\<close> is judged by its cause.\<close>

fun IsNotExist :: "go_error option \<Rightarrow> bool" where
  "IsNotExist (Some (PathError op p e)) = errno_is_ErrNotExist e"
| "IsNotExist _ = False"

text \<open>\<^verbatim>\<open>os.IsPermission\<close>, which the code does not call: it is what a permission error
  means in package os.\<close>

fun IsPermission :: "go_error option \<Rightarrow> bool" where
  "IsPermission (Some (PathError op p e)) = errno_is_ErrPermission e"
| "IsPermission _ = False"

text \<open>The type assertion \<^verbatim>\<open>perr, _ := err.(*os.PathError)\<close>: \<^const>\<open>None\<close> is the nil
  pointer it leaves in \<^verbatim>\<open>perr\<close> for any other dynamic type.\<close>

fun as_PathError :: "go_error \<Rightarrow> (string \<times> string \<times> errno) option" where
  "as_PathError (PathError op p e) = Some (op, p, e)"
| "as_PathError _ = None"

datatype 'a outcome = Panic string | Return 'a

definition nil_dereference :: string where
  "nil_dereference = ''runtime error: invalid memory address or nil pointer dereference''"

subsection \<open>The operating system\<close>

text \<open>\<^verbatim>\<open>os.FileMode\<close> is a \<^verbatim>\<open>uint32\<close>; the type bits are those of package io/fs.\<close>

type_synonym FileMode = "32 word"

definition ModeDir :: FileMode where "ModeDir = push_bit 31 1"
definition ModeSymlink :: FileMode where "ModeSymlink = push_bit 27 1"
definition ModeDevice :: FileMode where "ModeDevice = push_bit 26 1"
definition ModeNamedPipe :: FileMode where "ModeNamedPipe = push_bit 25 1"
definition ModeSocket :: FileMode where "ModeSocket = push_bit 24 1"
definition ModeCharDevice :: FileMode where "ModeCharDevice = push_bit 21 1"
definition ModeIrregular :: FileMode where "ModeIrregular = push_bit 19 1"

definition ModeType :: FileMode where
  "ModeType = ModeDir OR ModeSymlink OR ModeNamedPipe OR ModeSocket OR ModeDevice
     OR ModeCharDevice OR ModeIrregular"

definition IsRegular :: "FileMode \<Rightarrow> bool" where
  "IsRegular m = (m AND ModeType = 0)"

definition IsDir :: "FileMode \<Rightarrow> bool" where
  "IsDir m = (m AND ModeDir \<noteq> 0)"

text \<open>
  A \<^verbatim>\<open>time.Time\<close> is carried from stat to the encoder untouched. It is represented by the
  text that the formatter of package time writes for it in the layout RFC3339Nano: the
  year in at least four digits (a minus sign and four digits before year 0), month, day,
  \<^verbatim>\<open>T\<close>, the clock with its fraction, and \<^verbatim>\<open>Z\<close> or the zone offset as sign, hours, colon
  and minutes. Whether the encoder accepts the time is decided on this text, by
  \<open>Time_MarshalJSON\<close> below.
\<close>

datatype go_time = RFC3339 string

text \<open>What \<^verbatim>\<open>os.FileInfo\<close> offers: \<^verbatim>\<open>Name()\<close>, \<^verbatim>\<open>Size()\<close>, \<^verbatim>\<open>Mode()\<close>, \<^verbatim>\<open>ModTime()\<close>.\<close>

record FileInfo =
  fi_Name :: string
  fi_Size :: int
  fi_Mode :: FileMode
  fi_ModTime :: go_time

text \<open>\<^verbatim>\<open>type FileStat struct { Name string; Path string; Size int64; MTime time.Time }\<close>\<close>

record FileStat =
  Name :: string
  Path :: string
  Size :: int
  MTime :: go_time

text \<open>\<^verbatim>\<open>type DirStat struct { Name string; Path string; MTime time.Time }\<close>\<close>

record DirStat =
  Name :: string
  Path :: string
  MTime :: go_time

text \<open>The dynamic types of the \<^verbatim>\<open>interface{}\<close> that an endpoint returns.\<close>

datatype stats_value = Nil | File FileStat | Dir DirStat

datatype event = SysStat string | SysOpen string | SysClose string | LogResp stats_value

text \<open>
  The world: the answer of stat(2) and of open(2) with \<^verbatim>\<open>O_RDONLY\<close> for each path (an
  error number, or the file information; no error for a successful open), and the trace
  of calls issued so far. The two answers are independent, since permissions can change
  between the two calls.
\<close>

record world =
  stat_of :: "string \<Rightarrow> errno + FileInfo"
  open_of :: "string \<Rightarrow> errno option"
  trace :: "event list"

definition emit :: "event \<Rightarrow> world \<Rightarrow> world" where
  "emit e s = s\<lparr>trace := trace s @ [e]\<rparr>"

text \<open>\<^verbatim>\<open>os.Stat\<close> and \<^verbatim>\<open>os.OpenFile\<close> wrap every failure in a \<^verbatim>\<open>*PathError\<close> that names
  the operation and the path. The open file is represented by its name.\<close>

definition os_Stat :: "string \<Rightarrow> world \<Rightarrow> (go_error + FileInfo) \<times> world" where
  "os_Stat name s =
     (case stat_of s name of
        Inl e \<Rightarrow> (Inl (PathError ''stat'' name e), emit (SysStat name) s)
      | Inr fi \<Rightarrow> (Inr fi, emit (SysStat name) s))"

definition os_OpenFile_RDONLY :: "string \<Rightarrow> world \<Rightarrow> (go_error + string) \<times> world" where
  "os_OpenFile_RDONLY name s =
     (case open_of s name of
        Some e \<Rightarrow> (Inl (PathError ''open'' name e), emit (SysOpen name) s)
      | None \<Rightarrow> (Inr name, emit (SysOpen name) s))"

definition file_Close :: "string \<Rightarrow> world \<Rightarrow> world" where
  "file_Close file s = emit (SysClose file) s"

subsection \<open>The stat resolver\<close>

text \<open>
  \<^verbatim>\<open>func statsEndpoint(ctx context.Context, req interface{}) (stats interface{}, err error)\<close>.
  The request is always a string (the caller passes \<^verbatim>\<open>r.URL.Path\<close>) and the context is
  not used. The results are named, so every bare \<^verbatim>\<open>return\<close> yields the current
  \<^verbatim>\<open>stats\<close> and \<^verbatim>\<open>err\<close>; \<^verbatim>\<open>perr.Err\<close> panics when the type assertion left nil in
  \<^verbatim>\<open>perr\<close>.
\<close>

type_synonym endpoint = "string \<Rightarrow> world \<Rightarrow> ((stats_value \<times> go_error option) \<times> world) outcome"

definition statsEndpoint :: endpoint where
  "statsEndpoint path s0 =
     (case os_Stat path s0 of (res, s1) \<Rightarrow>
        let err = (case res of Inl e \<Rightarrow> Some e | Inr fi \<Rightarrow> None) in
        if IsNotExist err then
          Return ((Nil, Some (StatErr (NewStatError StatusNotFound path))), s1)
        else
          (case res of
             Inl e \<Rightarrow>
               (case as_PathError e of
                  None \<Rightarrow> Panic nil_dereference
                | Some (op, p, cause) \<Rightarrow>
                    if errno_Error cause = ErrPermission_Error
                    then Return ((Nil, Some (StatErr (NewStatError StatusForbidden path))), s1)
                    else Return ((Nil, Some e), s1))
           | Inr stat \<Rightarrow>
               if IsRegular (fi_Mode stat) then
                 (case os_OpenFile_RDONLY path s1 of
                    (Inl e, s2) \<Rightarrow>
                      (case as_PathError e of
                         None \<Rightarrow> Panic nil_dereference
                       | Some (op, p, cause) \<Rightarrow>
                           if errno_Error cause = ErrPermission_Error
                           then Return ((Nil, Some (StatErr (NewStatError StatusForbidden path))), s2)
                           else Return ((Nil, Some e), s2))
                  | (Inr file, s2) \<Rightarrow>
                      Return ((File \<lparr>FileStat.Name = fi_Name stat, FileStat.Path = path,
                                      Size = fi_Size stat, FileStat.MTime = fi_ModTime stat\<rparr>,
                               None), file_Close file s2))
               else if IsDir (fi_Mode stat) then
                 Return ((Dir \<lparr>DirStat.Name = fi_Name stat, DirStat.Path = path,
                               DirStat.MTime = fi_ModTime stat\<rparr>, None), s1)
               else Return ((Nil, None), s1)))"

subsection \<open>Package encoding/json\<close>

text \<open>
  The values this program marshals: nil, and structs of strings, integers and times,
  which become objects with the fields in declaration order.
\<close>

datatype json_field = JString string | JInt int | JTime go_time

datatype json = JNull | JObject "(string \<times> json_field) list"

definition dquote :: char where "dquote = CHR 0x22"
definition backslash :: char where "backslash = CHR 0x5C"
definition newline :: char where "newline = CHR 0x0A"

definition hex :: "nat \<Rightarrow> char" where
  "hex n = ''0123456789abcdef'' ! n"

text \<open>The bytes that the encoder copies unchanged with HTML escaping on (the default):
  \<^verbatim>\<open>htmlSafeSet\<close>.\<close>

definition htmlSafe :: "char \<Rightarrow> bool" where
  "htmlSafe c =
     (0x20 \<le> (of_char c :: nat) \<and> (of_char c :: nat) \<le> 0x7F \<and> c \<noteq> dquote \<and> c \<noteq> backslash
      \<and> c \<noteq> CHR ''&'' \<and> c \<noteq> CHR ''<'' \<and> c \<noteq> CHR ''>'')"

definition escape_ascii :: "char \<Rightarrow> string" where
  "escape_ascii c =
     (if htmlSafe c then [c]
      else if c = backslash \<or> c = dquote then [backslash, c]
      else if c = CHR 0x08 then [backslash, CHR ''b'']
      else if c = CHR 0x0C then [backslash, CHR ''f'']
      else if c = CHR 0x0A then [backslash, CHR ''n'']
      else if c = CHR 0x0D then [backslash, CHR ''r'']
      else if c = CHR 0x09 then [backslash, CHR ''t'']
      else [backslash, CHR ''u'', CHR ''0'', CHR ''0'',
            hex ((of_char c :: nat) div 16), hex ((of_char c :: nat) mod 16)])"

definition in_range :: "char \<Rightarrow> nat \<Rightarrow> nat \<Rightarrow> bool" where
  "in_range c lo hi = (lo \<le> of_char c \<and> (of_char c :: nat) \<le> hi)"

text \<open>The size of the UTF-8 sequence that starts a string of which the first byte is not
  ASCII, as \<^verbatim>\<open>utf8.DecodeRuneInString\<close> finds it; 0 when the bytes are no valid encoding.\<close>

definition rune_size :: "char \<Rightarrow> string \<Rightarrow> nat" where
  "rune_size c cs =
     (let b = (of_char c :: nat);
          lo = (if b = 0xE0 then 0xA0 else if b = 0xF0 then 0x90 else 0x80);
          hi = (if b = 0xED then 0x9F else if b = 0xF4 then 0x8F else 0xBF)
      in if 0xC2 \<le> b \<and> b \<le> 0xDF then
           (case cs of c1 # _ \<Rightarrow> if in_range c1 0x80 0xBF then 2 else 0 | _ \<Rightarrow> 0)
         else if 0xE0 \<le> b \<and> b \<le> 0xEF then
           (case cs of
              c1 # c2 # _ \<Rightarrow> if in_range c1 lo hi \<and> in_range c2 0x80 0xBF then 3 else 0
            | _ \<Rightarrow> 0)
         else if 0xF0 \<le> b \<and> b \<le> 0xF4 then
           (case cs of
              c1 # c2 # c3 # _ \<Rightarrow>
                if in_range c1 lo hi \<and> in_range c2 0x80 0xBF \<and> in_range c3 0x80 0xBF
                then 4 else 0
            | _ \<Rightarrow> 0)
         else 0)"

text \<open>The body of a JSON string: ASCII bytes are escaped one by one; an invalid byte
  becomes the escape of U+FFFD, U+2028 and U+2029 are escaped, any other rune is copied.\<close>

fun escape :: "string \<Rightarrow> string" where
  "escape [] = []"
| "escape (c # cs) =
     (if (of_char c :: nat) < 0x80 then escape_ascii c @ escape cs
      else if rune_size c cs = 0 then
        [backslash, CHR ''u'', CHR ''f'', CHR ''f'', CHR ''f'', CHR ''d''] @ escape cs
      else if c = CHR 0xE2 \<and> take 2 cs = [CHR 0x80, CHR 0xA8] then
        [backslash, CHR ''u'', CHR ''2'', CHR ''0'', CHR ''2'', CHR ''8''] @ escape (drop 2 cs)
      else if c = CHR 0xE2 \<and> take 2 cs = [CHR 0x80, CHR 0xA9] then
        [backslash, CHR ''u'', CHR ''2'', CHR ''0'', CHR ''2'', CHR ''9''] @ escape (drop 2 cs)
      else c # take (rune_size c cs - 1) cs @ escape (drop (rune_size c cs - 1) cs))"

definition quote :: "string \<Rightarrow> string" where
  "quote s = [dquote] @ escape s @ [dquote]"

text \<open>
  \<^verbatim>\<open>Time.MarshalJSON\<close> formats the time and then refuses it (\<^const>\<open>None\<close> is the error it
  returns) in the two cases of \<^verbatim>\<open>appendStrictRFC3339\<close>: the fifth byte is not the hyphen
  after a year of exactly four digits (year outside of range [0,9999]), or the text does
  not end in \<^verbatim>\<open>Z\<close> and the zone hour has three digits or is 24 or more. The hour is
  computed on bytes, as \<^verbatim>\<open>10*(b[0]-'0') + (b[1]-'0')\<close>. The formatter writes at least
  twenty bytes, so the bytes read are there; a shorter text is refused.
\<close>

definition byte :: "char \<Rightarrow> 8 word" where
  "byte c = of_nat (of_char c)"

definition is_digit :: "char \<Rightarrow> bool" where
  "is_digit c = (byte (CHR ''0'') \<le> byte c \<and> byte c \<le> byte (CHR ''9''))"

definition num2 :: "char \<Rightarrow> char \<Rightarrow> 8 word" where
  "num2 b0 b1 = 10 * (byte b0 - byte (CHR ''0'')) + (byte b1 - byte (CHR ''0''))"

fun zone_hour_out_of_range :: "string \<Rightarrow> bool" where
  "zone_hour_out_of_range (c # b0 # b1 # rest) = (is_digit c \<or> 24 \<le> num2 b0 b1)"
| "zone_hour_out_of_range short = True"

definition Time_MarshalJSON :: "go_time \<Rightarrow> string option" where
  "Time_MarshalJSON t =
     (case t of RFC3339 b \<Rightarrow>
        if length b < 5 \<or> b ! 4 \<noteq> CHR ''-'' then None
        else if last b \<noteq> CHR ''Z'' \<and> zone_hour_out_of_range (drop (length b - 6) b) then None
        else Some ([dquote] @ b @ [dquote]))"

text \<open>
  \<^verbatim>\<open>json.Marshal\<close> returns the bytes or an error: \<^const>\<open>None\<close> when the \<^verbatim>\<open>MarshalJSON\<close> of a
  field fails, which among the values of this program only a time can do.
\<close>

fun marshal_field :: "json_field \<Rightarrow> string option" where
  "marshal_field (JString s) = Some (quote s)"
| "marshal_field (JInt i) = Some (FormatInt i)"
| "marshal_field (JTime t) = Time_MarshalJSON t"

fun marshal_fields :: "(string \<times> json_field) list \<Rightarrow> string option" where
  "marshal_fields [] = Some []"
| "marshal_fields [(k, v)] =
     (case marshal_field v of
        None \<Rightarrow> None
      | Some b \<Rightarrow> Some (quote k @ '':'' @ b))"
| "marshal_fields ((k, v) # f # fs) =
     (case marshal_field v of
        None \<Rightarrow> None
      | Some b \<Rightarrow>
          (case marshal_fields (f # fs) of
             None \<Rightarrow> None
           | Some bs \<Rightarrow> Some (quote k @ '':'' @ b @ '','' @ bs)))"

fun Marshal :: "json \<Rightarrow> string option" where
  "Marshal JNull = Some ''null''"
| "Marshal (JObject fs) =
     (case marshal_fields fs of None \<Rightarrow> None | Some bs \<Rightarrow> Some (''{'' @ bs @ ''}''))"

text \<open>The three \<^verbatim>\<open>MarshalJSON\<close> methods, and the value an \<^verbatim>\<open>interface{}\<close> marshals to.\<close>

definition MarshalJSON_FileStat :: "FileStat \<Rightarrow> json" where
  "MarshalJSON_FileStat file =
     JObject [(''type'', JString ''file''),
              (''name'', JString (FileStat.Name file)),
              (''path'', JString (FileStat.Path file)),
              (''size'', JInt (Size file)),
              (''mtime'', JTime (FileStat.MTime file))]"

definition MarshalJSON_DirStat :: "DirStat \<Rightarrow> json" where
  "MarshalJSON_DirStat file =
     JObject [(''type'', JString ''directory''),
              (''name'', JString (DirStat.Name file)),
              (''path'', JString (DirStat.Path file)),
              (''mtime'', JTime (DirStat.MTime file))]"

definition MarshalJSON_StatError :: "StatError \<Rightarrow> json" where
  "MarshalJSON_StatError err =
     JObject [(''status'', JString ''error''),
              (''code'', JInt (Code err)),
              (''path'', JString (StatError.Path err)),
              (''message'', JString (Message err))]"

fun json_of :: "stats_value \<Rightarrow> json" where
  "json_of Nil = JNull"
| "json_of (File f) = MarshalJSON_FileStat f"
| "json_of (Dir d) = MarshalJSON_DirStat d"

text \<open>The field names of a marshalled value, in the order written.\<close>

fun keys :: "json \<Rightarrow> string list" where
  "keys JNull = []"
| "keys (JObject fs) = map fst fs"

subsection \<open>Package net/http\<close>

text \<open>
  A response writer: the header map of the handler, the status once the header has been
  written, the copy of the header map taken at that moment, and the body written so
  far. The first write writes the header with status 200 when \<^verbatim>\<open>WriteHeader\<close> has not
  been called, and so does the server when a handler returns without having written
  (\<open>finishRequest\<close>). The copy \<open>sent_header\<close> holds the fields that the handler supplied.
  The fields that the server adds of its own when it sends the response are not part of
  it: Date, Content-Length, and a Content-Type detected from the body when the handler
  supplied none. Every write of \<^verbatim>\<open>api.go\<close> follows a \<^verbatim>\<open>Set\<close> or \<^verbatim>\<open>Add\<close> of Content-Type.
\<close>

record response_writer =
  header :: "string \<Rightarrow> string list"
  status :: "int option"
  sent_header :: "string \<Rightarrow> string list"
  body :: string

record request =
  Method :: string
  url_path :: string
  req_header :: "string \<Rightarrow> string list"

definition StatusOK :: int where "StatusOK = 200"

definition Header_Set :: "string \<Rightarrow> string \<Rightarrow> response_writer \<Rightarrow> response_writer" where
  "Header_Set k v w = w\<lparr>header := (header w)(k := [v])\<rparr>"

definition Header_Add :: "string \<Rightarrow> string \<Rightarrow> response_writer \<Rightarrow> response_writer" where
  "Header_Add k v w = w\<lparr>header := (header w)(k := header w k @ [v])\<rparr>"

definition Header_Get :: "(string \<Rightarrow> string list) \<Rightarrow> string \<Rightarrow> string" where
  "Header_Get h k = (case h k of [] \<Rightarrow> [] | v # _ \<Rightarrow> v)"

definition WriteHeader :: "int \<Rightarrow> response_writer \<Rightarrow> response_writer" where
  "WriteHeader code w =
     (if status w = None then w\<lparr>status := Some code, sent_header := header w\<rparr> else w)"

definition Write :: "string \<Rightarrow> response_writer \<Rightarrow> response_writer" where
  "Write bs w =
     (let w1 = (if status w = None then WriteHeader StatusOK w else w)
      in w1\<lparr>body := body w1 @ bs\<rparr>)"

definition finishRequest :: "response_writer \<Rightarrow> response_writer" where
  "finishRequest w = (if status w = None then WriteHeader StatusOK w else w)"

text \<open>
  \<^verbatim>\<open>json.NewEncoder(w).Encode(v)\<close> marshals the value first. When that fails it writes
  nothing and returns the error, which every call in \<^verbatim>\<open>api.go\<close> drops; otherwise it
  writes the bytes and a newline in one write.
\<close>

definition Encode :: "json \<Rightarrow> response_writer \<Rightarrow> response_writer" where
  "Encode v w =
     (case Marshal v of
        None \<Rightarrow> w
      | Some b \<Rightarrow> Write (b @ [newline]) w)"

type_synonym handler =
  "response_writer \<Rightarrow> request \<Rightarrow> world \<Rightarrow> (response_writer \<times> request \<times> world) outcome"

subsection \<open>The response encoder\<close>

text \<open>
  \<^verbatim>\<open>handleEndpoint\<close> calls the endpoint on \<^verbatim>\<open>r.URL.Path\<close>. A \<^verbatim>\<open>*StatError\<close> is written
  with its own code, any other error as a 500 envelope with the error's text, a result
  through the encoder (which makes the status 200), followed by a log line. A panic of
  the endpoint unwinds through the handler.
\<close>

definition handleEndpoint :: "endpoint \<Rightarrow> handler" where
  "handleEndpoint endpoint w r s =
     (case endpoint (url_path r) s of
        Panic msg \<Rightarrow> Panic msg
      | Return ((resp, err), s1) \<Rightarrow>
          (case err of
             Some (StatErr serr) \<Rightarrow>
               Return (Encode (MarshalJSON_StatError serr)
                         (WriteHeader (Code serr)
                            (Header_Set ''Content-Type'' ''application/json'' w)), r, s1)
           | Some e \<Rightarrow>
               (let statusCode = StatusInternalServerError in
                Return (Encode (JObject [(''code'', JInt statusCode),
                                         (''status'', JString ''error''),
                                         (''message'', JString (Error e))])
                          (WriteHeader statusCode
                             (Header_Set ''Content-Type'' ''application/json'' w)), r, s1))
           | None \<Rightarrow>
               Return (Encode (json_of resp)
                         (Header_Set ''Content-Type'' ''application/json'' w),
                       r, emit (LogResp resp) s1)))"

subsection \<open>The router\<close>

text \<open>
  \<^verbatim>\<open>ServeAPI(path, root)\<close> returns a middleware. \<^verbatim>\<open>http.Redirect\<close> is a parameter (it only
  writes to \<^verbatim>\<open>w\<close>); \<^verbatim>\<open>root\<close> is not used by the code. The two slices
  \<^verbatim>\<open>r.URL.Path[pathLen:]\<close> and \<^verbatim>\<open>r.URL.Path[6:]\<close> are taken under a \<^verbatim>\<open>HasPrefix\<close> test, hence
  in range. The handler assigns to \<^verbatim>\<open>r.URL.Path\<close>, so the request is part of the result.
\<close>

type_synonym redirect = "response_writer \<Rightarrow> request \<Rightarrow> string \<Rightarrow> int \<Rightarrow> response_writer"

definition ServeAPI :: "redirect \<Rightarrow> string \<Rightarrow> 'root \<Rightarrow> handler \<Rightarrow> handler" where
  "ServeAPI Redirect path0 root inner w r s =
     (let path = TrimRight path0 ''/'';
          pathWithSlash = path @ ''/'';
          pathLen = length pathWithSlash;
          handleStats = handleEndpoint statsEndpoint
      in if url_path r = path then
           Return (Redirect w r pathWithSlash StatusMovedPermanently, r, s)
         else if HasPrefix (url_path r) pathWithSlash then
           (let r1 = r\<lparr>url_path := TrimRight (drop pathLen (url_path r)) ''/''\<rparr> in
            if HasPrefix (url_path r1) ''stats/'' then
              handleStats w (r1\<lparr>url_path := drop 6 (url_path r1)\<rparr>) s
            else
              (let statusCode = StatusNotFound in
               Return (Encode (JObject [(''code'', JInt statusCode),
                                        (''status'', JString ''error''),
                                        (''message'', JString ''not a valid API endpoint'')])
                         (WriteHeader statusCode
                            (Header_Add ''Content-Type'' ''application/json'' w)), r1, s)))
         else if Header_Get (req_header r) ''Content-Type'' = ''application/goserve+json''
           then inner w r s
         else inner w r s)"

subsection \<open>Observations and example inputs\<close>

text \<open>What a client and an observer of the process see of a handled request: the status,
  the Content-Type sent, the body, the request path left in \<^verbatim>\<open>r.URL.Path\<close>, and the trace.\<close>

definition observe ::
  "(response_writer \<times> request \<times> world) outcome \<Rightarrow>
   (int option \<times> string list \<times> string \<times> string \<times> event list) outcome" where
  "observe out =
     map_outcome (\<lambda>(w, r, s). (status w, sent_header w ''Content-Type'', body w, url_path r,
                                trace s)) out"

text \<open>What the server makes of the result of a handler that has returned: it writes the
  header with status 200 when the handler has not written it.\<close>

definition finished ::
  "(response_writer \<times> request \<times> world) outcome \<Rightarrow> (response_writer \<times> request \<times> world) outcome"
  where
  "finished out = map_outcome (\<lambda>(w, r, s). (finishRequest w, r, s)) out"

text \<open>The part of a result that does not depend on the trace.\<close>

definition response_of ::
  "(response_writer \<times> request \<times> world) outcome \<Rightarrow> (response_writer \<times> request) outcome" where
  "response_of out = map_outcome (\<lambda>(w, r, s). (w, r)) out"

text \<open>A response writer as the server hands it to a handler, and a GET request.\<close>

definition fresh_writer :: response_writer where
  "fresh_writer = \<lparr>header = (\<lambda>k. []), status = None, sent_header = (\<lambda>k. []), body = []\<rparr>"

definition GET :: "string \<Rightarrow> request" where
  "GET p = \<lparr>Method = ''GET'', url_path = p, req_header = (\<lambda>k. [])\<rparr>"

text \<open>Stand-ins for the two collaborators: a redirect that sets Location and the status,
  and an inner handler that answers in plain text with the path it was asked for.\<close>

definition Redirect_plain :: redirect where
  "Redirect_plain w r url code = WriteHeader code (Header_Set ''Location'' url w)"

definition inner_echo :: handler where
  "inner_echo w r s =
     Return (Write (''inner: '' @ url_path r)
               (Header_Set ''Content-Type'' ''text/plain; charset=utf-8'' w), r, s)"

text \<open>
  An example file system, seen from a process whose working directory is the root: the
  file of 1024 bytes \<^verbatim>\<open>/tmp/readme.txt\<close> (mode 0644), the directory \<^verbatim>\<open>tmp\<close>, a socket, a
  character device, a directory that may not be searched, a file that stat shows but
  open refuses with EACCES, another that open refuses with EPERM, a path that runs
  through a regular file, and a file whose modification time lies in the year 10000.
  Every other path does not exist.
\<close>

definition readme_info :: FileInfo where
  "readme_info = \<lparr>fi_Name = ''readme.txt'', fi_Size = 1024, fi_Mode = 0x1A4,
     fi_ModTime = RFC3339 ''2023-01-01T00:00:00Z''\<rparr>"

definition tmp_info :: FileInfo where
  "tmp_info = \<lparr>fi_Name = ''tmp'', fi_Size = 4096, fi_Mode = ModeDir OR 0x1FF,
     fi_ModTime = RFC3339 ''2023-01-02T08:30:00Z''\<rparr>"

definition sock_info :: FileInfo where
  "sock_info = \<lparr>fi_Name = ''app.sock'', fi_Size = 0, fi_Mode = ModeSocket OR 0x1ED,
     fi_ModTime = RFC3339 ''2023-01-03T12:00:00Z''\<rparr>"

definition null_info :: FileInfo where
  "null_info = \<lparr>fi_Name = ''null'', fi_Size = 0,
     fi_Mode = ModeDevice OR ModeCharDevice OR 0x1B6,
     fi_ModTime = RFC3339 ''2023-01-03T12:00:00Z''\<rparr>"

definition locked_info :: FileInfo where
  "locked_info = \<lparr>fi_Name = ''locked.txt'', fi_Size = 7, fi_Mode = 0x180,
     fi_ModTime = RFC3339 ''2023-01-04T00:00:00Z''\<rparr>"

definition guarded_info :: FileInfo where
  "guarded_info = \<lparr>fi_Name = ''guarded.txt'', fi_Size = 7, fi_Mode = 0x1A4,
     fi_ModTime = RFC3339 ''2023-01-04T00:00:00Z''\<rparr>"

definition future_info :: FileInfo where
  "future_info = \<lparr>fi_Name = ''future.txt'', fi_Size = 3, fi_Mode = 0x1A4,
     fi_ModTime = RFC3339 ''10000-01-01T00:00:00Z''\<rparr>"

definition example_files :: "(string \<times> (errno + FileInfo) \<times> errno option) list" where
  "example_files =
    [(''/tmp/readme.txt'', Inr readme_info, None),
     (''tmp/readme.txt'', Inr readme_info, None),
     (''tmp'', Inr tmp_info, None),
     (''run/app.sock'', Inr sock_info, None),
     (''dev/null'', Inr null_info, None),
     (''private/key'', Inl EACCES, Some EACCES),
     (''locked.txt'', Inr locked_info, Some EACCES),
     (''guarded.txt'', Inr guarded_info, Some EPERM),
     (''tmp/readme.txt/x'', Inl ENOTDIR, Some ENOTDIR),
     (''future.txt'', Inr future_info, None)]"

definition example_world :: world where
  "example_world =
     \<lparr>stat_of = (\<lambda>p. case map_of example_files p of Some (st, opn) \<Rightarrow> st | None \<Rightarrow> Inl ENOENT),
      open_of = (\<lambda>p. case map_of example_files p of Some (st, opn) \<Rightarrow> opn | None \<Rightarrow> Some ENOENT),
      trace = []\<rparr>"

text \<open>The body that the specification gives for the request \<^verbatim>\<open>/api/stats/tmp/readme.txt\<close>.\<close>

definition spec_readme_body :: string where
  \<open>spec_readme_body =
     ''{"type":"file","name":"readme.txt","path":"/tmp/readme.txt","size":1024,"mtime":"2023-01-01T00:00:00Z"}''\<close>

section \<open>Properties\<close>

subsection \<open>The resolver, branch by branch\<close>

lemma permission_text: "(errno_Error e = ErrPermission_Error) = (e = EACCES)"
  by (cases e) (simp_all add: ErrPermission_Error_def)

lemma os_Stat_world: "snd (os_Stat p s) = emit (SysStat p) s"
  by (simp add: os_Stat_def split: sum.split)

lemma os_Stat_failed:
  "fst (os_Stat p s) = Inl err \<longleftrightarrow> (\<exists>e. stat_of s p = Inl e \<and> err = PathError ''stat'' p e)"
  by (auto simp add: os_Stat_def split: sum.split)

lemma os_Stat_succeeded: "fst (os_Stat p s) = Inr fi \<longleftrightarrow> stat_of s p = Inr fi"
  by (auto simp add: os_Stat_def split: sum.split)

lemma os_OpenFile_world: "snd (os_OpenFile_RDONLY p s) = emit (SysOpen p) s"
  by (simp add: os_OpenFile_RDONLY_def split: option.split)

lemma os_OpenFile_failed:
  "fst (os_OpenFile_RDONLY p s) = Inl err \<longleftrightarrow>
   (\<exists>e. open_of s p = Some e \<and> err = PathError ''open'' p e)"
  by (auto simp add: os_OpenFile_RDONLY_def split: option.split)

lemma statsEndpoint_stat_failed:
  assumes "stat_of s p = Inl e"
  shows "statsEndpoint p s =
    Return ((Nil, Some (if e = ENOENT then StatErr (NewStatError StatusNotFound p)
                        else if e = EACCES then StatErr (NewStatError StatusForbidden p)
                        else PathError ''stat'' p e)), emit (SysStat p) s)"
  using assms
  by (simp add: statsEndpoint_def os_Stat_def errno_is_ErrNotExist_def permission_text)

lemma statsEndpoint_open_failed:
  assumes "stat_of s p = Inr fi" and "IsRegular (fi_Mode fi)" and "open_of s p = Some e"
  shows "statsEndpoint p s =
    Return ((Nil, Some (if e = EACCES then StatErr (NewStatError StatusForbidden p)
                        else PathError ''open'' p e)),
            emit (SysOpen p) (emit (SysStat p) s))"
  using assms
  by (simp add: statsEndpoint_def os_Stat_def os_OpenFile_RDONLY_def emit_def permission_text)

lemma statsEndpoint_file:
  assumes "stat_of s p = Inr fi" and "IsRegular (fi_Mode fi)" and "open_of s p = None"
  shows "statsEndpoint p s =
    Return ((File \<lparr>FileStat.Name = fi_Name fi, FileStat.Path = p, Size = fi_Size fi,
                   FileStat.MTime = fi_ModTime fi\<rparr>, None),
            emit (SysClose p) (emit (SysOpen p) (emit (SysStat p) s)))"
  using assms
  by (simp add: statsEndpoint_def os_Stat_def os_OpenFile_RDONLY_def emit_def file_Close_def)

lemma statsEndpoint_dir:
  assumes "stat_of s p = Inr fi" and "\<not> IsRegular (fi_Mode fi)" and "IsDir (fi_Mode fi)"
  shows "statsEndpoint p s =
    Return ((Dir \<lparr>DirStat.Name = fi_Name fi, DirStat.Path = p,
                  DirStat.MTime = fi_ModTime fi\<rparr>, None), emit (SysStat p) s)"
  using assms
  by (simp add: statsEndpoint_def os_Stat_def)

lemma statsEndpoint_other:
  assumes "stat_of s p = Inr fi" and "\<not> IsRegular (fi_Mode fi)" and "\<not> IsDir (fi_Mode fi)"
  shows "statsEndpoint p s = Return ((Nil, None), emit (SysStat p) s)"
  using assms
  by (simp add: statsEndpoint_def os_Stat_def)

lemma IsDir_not_IsRegular: "IsDir m \<Longrightarrow> \<not> IsRegular m"
  by (simp add: IsDir_def IsRegular_def ModeType_def bit.conj_disj_distrib or_eq_0_iff)

subsection \<open>The response writer\<close>

lemma Encode_with_status:
  assumes "status w = None" and "Marshal v = Some b"
  shows "status (Encode v (WriteHeader code (Header_Set k x w))) = Some code"
    and "sent_header (Encode v (WriteHeader code (Header_Set k x w))) k = [x]"
    and "body (Encode v (WriteHeader code (Header_Set k x w))) = body w @ b @ [newline]"
  using assms by (simp_all add: Encode_def Write_def WriteHeader_def Header_Set_def)

lemma Encode_first_write:
  assumes "status w = None" and "Marshal v = Some b"
  shows "status (Encode v (Header_Set k x w)) = Some 200"
    and "sent_header (Encode v (Header_Set k x w)) k = [x]"
    and "body (Encode v (Header_Set k x w)) = body w @ b @ [newline]"
  using assms by (simp_all add: Encode_def Write_def WriteHeader_def Header_Set_def StatusOK_def)

text \<open>When marshalling fails the encoder leaves the writer as it was.\<close>

lemma Encode_failed: "Marshal v = None \<Longrightarrow> Encode v w = w"
  by (simp add: Encode_def)

text \<open>An envelope has no time among its fields, so it always marshals; a descriptor
  marshals when \<^verbatim>\<open>Time.MarshalJSON\<close> accepts its modification time.\<close>

lemma Marshal_StatError: "\<exists>b. Marshal (MarshalJSON_StatError e) = Some b"
  by (simp add: MarshalJSON_StatError_def)

lemma Marshal_FileStat:
  "Marshal (MarshalJSON_FileStat f) = None \<longleftrightarrow> Time_MarshalJSON (FileStat.MTime f) = None"
  by (simp add: MarshalJSON_FileStat_def split: option.split)

lemma Marshal_DirStat:
  "Marshal (MarshalJSON_DirStat d) = None \<longleftrightarrow> Time_MarshalJSON (DirStat.MTime d) = None"
  by (simp add: MarshalJSON_DirStat_def split: option.split)

lemma handleEndpoint_StatErr:
  assumes "endpoint (url_path r) s = Return ((resp, Some (StatErr serr)), s1)"
  shows "handleEndpoint endpoint w r s =
    Return (Encode (MarshalJSON_StatError serr)
             (WriteHeader (Code serr) (Header_Set ''Content-Type'' ''application/json'' w)), r, s1)"
  using assms by (simp add: handleEndpoint_def)

lemma handleEndpoint_PathError:
  assumes "endpoint (url_path r) s = Return ((resp, Some (PathError op p e)), s1)"
  shows "handleEndpoint endpoint w r s =
    Return (Encode (JObject [(''code'', JInt 500), (''status'', JString ''error''),
                             (''message'', JString (Error (PathError op p e)))])
             (WriteHeader 500 (Header_Set ''Content-Type'' ''application/json'' w)), r, s1)"
  using assms by (simp add: handleEndpoint_def StatusInternalServerError_def)

lemma handleEndpoint_result:
  assumes "endpoint (url_path r) s = Return ((resp, None), s1)"
  shows "handleEndpoint endpoint w r s =
    Return (Encode (json_of resp) (Header_Set ''Content-Type'' ''application/json'' w), r,
            emit (LogResp resp) s1)"
  using assms by (simp add: handleEndpoint_def)

lemma StatusText_404: "StatusText 404 = ''Not Found''"
  by (simp add: StatusText_def statusText_table_def)

lemma StatusText_403: "StatusText 403 = ''Forbidden''"
  by (simp add: StatusText_def statusText_table_def)

lemma Message_404: "Message (NewStatError StatusNotFound p) = ''Not Found''"
  by (simp add: Message_def NewStatError_def StatusNotFound_def StatusText_404)

lemma Message_403: "Message (NewStatError StatusForbidden p) = ''Forbidden''"
  by (simp add: Message_def NewStatError_def StatusForbidden_def StatusText_403)

subsection \<open>Evaluation of the examples\<close>

lemmas json_text = quote_def escape_ascii_def htmlSafe_def dquote_def backslash_def newline_def
  hex_def FormatInt_def digits.simps

lemma example_stat [simp]:
  "stat_of example_world p = (case map_of example_files p of Some (st, opn) \<Rightarrow> st | None \<Rightarrow> Inl ENOENT)"
  "open_of example_world p = (case map_of example_files p of Some (st, opn) \<Rightarrow> opn | None \<Rightarrow> Some ENOENT)"
  "trace example_world = []"
  by (simp_all add: example_world_def)

lemma fresh_writer_simps [simp]:
  "status fresh_writer = None" "body fresh_writer = []" "header fresh_writer k = []"
  by (simp_all add: fresh_writer_def)

lemma GET_simps [simp]: "url_path (GET p) = p" "Method (GET p) = ''GET''"
  by (simp_all add: GET_def)

lemma example_modes:
  "IsRegular (fi_Mode readme_info)" "IsRegular (fi_Mode locked_info)"
  "IsRegular (fi_Mode guarded_info)"
  "\<not> IsRegular (fi_Mode tmp_info)" "IsDir (fi_Mode tmp_info)"
  "\<not> IsRegular (fi_Mode sock_info)" "\<not> IsDir (fi_Mode sock_info)"
  "\<not> IsRegular (fi_Mode null_info)" "\<not> IsDir (fi_Mode null_info)"
  by (simp_all add: readme_info_def locked_info_def guarded_info_def tmp_info_def sock_info_def
      null_info_def IsDir_def IsRegular_def ModeType_def ModeDir_def ModeSymlink_def
      ModeDevice_def ModeNamedPipe_def ModeSocket_def ModeCharDevice_def ModeIrregular_def)

lemma not_permission_text:
  "\<not> errno_is_ErrPermission e \<Longrightarrow> errno_Error e \<noteq> ErrPermission_Error"
  by (simp add: permission_text errno_is_ErrPermission_def)

subsection \<open>Paths that do not exist\<close>

text \<open>
  C5: when stat fails on the requested path with an error for which \<^verbatim>\<open>os.IsNotExist\<close>
  holds, the resolver returns the domain error with code 404 and that path, and the
  response has status 404 and the error envelope with message "Not Found". The message
  is the status text of the code, or "unknown error" for a code without status text.
\<close>

theorem not_exist_gives_404:
  assumes stat: "fst (os_Stat (url_path r) s) = Inl err"
    and notexist: "IsNotExist (Some err)"
    and fresh: "status w = None"
  shows "statsEndpoint (url_path r) s =
           Return ((Nil, Some (StatErr \<lparr>Code = 404, Path = url_path r\<rparr>)),
                   emit (SysStat (url_path r)) s)
       \<and> (\<exists>w' b. handleEndpoint statsEndpoint w r s =
                    Return (w', r, emit (SysStat (url_path r)) s)
             \<and> status w' = Some 404
             \<and> sent_header w' ''Content-Type'' = [''application/json'']
             \<and> Marshal (JObject [(''status'', JString ''error''),
                   (''code'', JInt 404), (''path'', JString (url_path r)),
                   (''message'', JString ''Not Found'')]) = Some b
             \<and> body w' = body w @ b @ [newline])
       \<and> Message \<lparr>Code = 404, Path = url_path r\<rparr> = StatusText 404
       \<and> StatusText 404 = ''Not Found''
       \<and> (\<forall>e. Message e = (if StatusText (Code e) = [] then ''unknown error''
                            else StatusText (Code e)))"
proof -
  from stat obtain e where e: "stat_of s (url_path r) = Inl e"
    and err: "err = PathError ''stat'' (url_path r) e"
    by (auto simp add: os_Stat_failed)
  from notexist err have "e = ENOENT"
    by (simp add: errno_is_ErrNotExist_def)
  with e have res: "statsEndpoint (url_path r) s =
      Return ((Nil, Some (StatErr \<lparr>Code = 404, Path = url_path r\<rparr>)), emit (SysStat (url_path r)) s)"
    by (simp add: statsEndpoint_stat_failed NewStatError_def StatusNotFound_def)
  have msg: "Message \<lparr>Code = 404, Path = url_path r\<rparr> = ''Not Found''"
    using Message_404 [of "url_path r"] by (simp add: NewStatError_def StatusNotFound_def)
  let ?w = "Encode (MarshalJSON_StatError \<lparr>Code = 404, Path = url_path r\<rparr>)
              (WriteHeader 404 (Header_Set ''Content-Type'' ''application/json'' w))"
  have h: "handleEndpoint statsEndpoint w r s = Return (?w, r, emit (SysStat (url_path r)) s)"
    using res by (simp add: handleEndpoint_def)
  obtain b where b: "Marshal (MarshalJSON_StatError \<lparr>Code = 404, Path = url_path r\<rparr>) = Some b"
    using Marshal_StatError by blast
  with msg have b': "Marshal (JObject [(''status'', JString ''error''),
                   (''code'', JInt 404), (''path'', JString (url_path r)),
                   (''message'', JString ''Not Found'')]) = Some b"
    by (simp add: MarshalJSON_StatError_def)
  have "status ?w = Some 404" "sent_header ?w ''Content-Type'' = [''application/json'']"
    "body ?w = body w @ b @ [newline]"
    by (simp_all add: Encode_with_status [OF fresh b])
  with h b' have "\<exists>w' b. handleEndpoint statsEndpoint w r s =
                    Return (w', r, emit (SysStat (url_path r)) s)
             \<and> status w' = Some 404
             \<and> sent_header w' ''Content-Type'' = [''application/json'']
             \<and> Marshal (JObject [(''status'', JString ''error''),
                   (''code'', JInt 404), (''path'', JString (url_path r)),
                   (''message'', JString ''Not Found'')]) = Some b
             \<and> body w' = body w @ b @ [newline]"
    by blast
  with res msg show ?thesis
    by (simp add: StatusText_404 Message_def)
qed


theorem not_exist_gives_404_witness:
  \<open>fst (os_Stat (url_path (GET ''missing.txt'')) example_world) =
      Inl (PathError ''stat'' ''missing.txt'' ENOENT)
   \<and> IsNotExist (Some (PathError ''stat'' ''missing.txt'' ENOENT))
   \<and> status fresh_writer = None
   \<and> observe (handleEndpoint statsEndpoint fresh_writer (GET ''missing.txt'') example_world) =
       Return (Some 404, [''application/json''],
         ''{"status":"error","code":404,"path":"missing.txt","message":"Not Found"}'' @ [newline],
         ''missing.txt'', [SysStat ''missing.txt''])
   \<and> Message \<lparr>Code = 999, Path = ''missing.txt''\<rparr> = ''unknown error''\<close>
proof -
  have h1: "fst (os_Stat (url_path (GET ''missing.txt'')) example_world) =
      Inl (PathError ''stat'' ''missing.txt'' ENOENT)"
    by (simp add: os_Stat_def example_files_def)
  have h2: "IsNotExist (Some (PathError ''stat'' ''missing.txt'' ENOENT))"
    by (simp add: errno_is_ErrNotExist_def)
  have h3: "status fresh_writer = None" by simp
  have unknown: "StatusText 999 = []"
    by (simp add: StatusText_def statusText_table_def)
  from not_exist_gives_404 [OF h1 h2 h3] unknown h1 h2 h3 show ?thesis
    by (auto simp add: observe_def emit_def json_text)
qed

subsection \<open>Stat failures that are neither absence nor denial\<close>

text \<open>
  C2: when stat fails on the requested path with an error for which neither
  \<^verbatim>\<open>os.IsNotExist\<close> nor \<^verbatim>\<open>os.IsPermission\<close> holds, the resolver returns normally, with
  no descriptor and with that very error (which is no \<^verbatim>\<open>StatError\<close>); it does not panic;
  and the response has status 500 and the envelope with code 500, status "error" and
  the text of the error as message.
\<close>

theorem unclassified_stat_error_gives_500:
  assumes stat: "fst (os_Stat (url_path r) s) = Inl err"
    and notexist: "\<not> IsNotExist (Some err)"
    and notperm: "\<not> IsPermission (Some err)"
    and fresh: "status w = None"
  shows "statsEndpoint (url_path r) s = Return ((Nil, Some err), emit (SysStat (url_path r)) s)
       \<and> (\<forall>serr. err \<noteq> StatErr serr)
       \<and> (\<forall>msg. statsEndpoint (url_path r) s \<noteq> Panic msg)
       \<and> (\<exists>w' b. handleEndpoint statsEndpoint w r s =
                    Return (w', r, emit (SysStat (url_path r)) s)
             \<and> status w' = Some 500
             \<and> sent_header w' ''Content-Type'' = [''application/json'']
             \<and> Marshal (JObject [(''code'', JInt 500),
                   (''status'', JString ''error''),
                   (''message'', JString (Error err))]) = Some b
             \<and> body w' = body w @ b @ [newline])"
proof -
  from stat obtain e where e: "stat_of s (url_path r) = Inl e"
    and err: "err = PathError ''stat'' (url_path r) e"
    by (auto simp add: os_Stat_failed)
  from notexist notperm err have "e \<noteq> ENOENT" "e \<noteq> EACCES"
    by (simp_all add: errno_is_ErrNotExist_def errno_is_ErrPermission_def)
  with e err have res:
    "statsEndpoint (url_path r) s = Return ((Nil, Some err), emit (SysStat (url_path r)) s)"
    by (simp add: statsEndpoint_stat_failed)
  let ?w = "Encode (JObject [(''code'', JInt 500), (''status'', JString ''error''),
                             (''message'', JString (Error err))])
              (WriteHeader 500 (Header_Set ''Content-Type'' ''application/json'' w))"
  have h: "handleEndpoint statsEndpoint w r s = Return (?w, r, emit (SysStat (url_path r)) s)"
    using res err by (simp add: handleEndpoint_def StatusInternalServerError_def)
  obtain b where b: "Marshal (JObject [(''code'', JInt 500),
                   (''status'', JString ''error''),
                   (''message'', JString (Error err))]) = Some b"
    by simp
  have "status ?w = Some 500" "sent_header ?w ''Content-Type'' = [''application/json'']"
    "body ?w = body w @ b @ [newline]"
    by (simp_all add: Encode_with_status [OF fresh b])
  with h b have "\<exists>w' b. handleEndpoint statsEndpoint w r s =
                    Return (w', r, emit (SysStat (url_path r)) s)
             \<and> status w' = Some 500
             \<and> sent_header w' ''Content-Type'' = [''application/json'']
             \<and> Marshal (JObject [(''code'', JInt 500),
                   (''status'', JString ''error''),
                   (''message'', JString (Error err))]) = Some b
             \<and> body w' = body w @ b @ [newline]"
    by blast
  with res err show ?thesis by simp
qed

theorem unclassified_stat_error_gives_500_witness:
  \<open>fst (os_Stat (url_path (GET ''tmp/readme.txt/x'')) example_world) =
      Inl (PathError ''stat'' ''tmp/readme.txt/x'' ENOTDIR)
   \<and> \<not> IsNotExist (Some (PathError ''stat'' ''tmp/readme.txt/x'' ENOTDIR))
   \<and> \<not> IsPermission (Some (PathError ''stat'' ''tmp/readme.txt/x'' ENOTDIR))
   \<and> status fresh_writer = None
   \<and> statsEndpoint ''tmp/readme.txt/x'' example_world =
       Return ((Nil, Some (PathError ''stat'' ''tmp/readme.txt/x'' ENOTDIR)),
               emit (SysStat ''tmp/readme.txt/x'') example_world)
   \<and> observe (handleEndpoint statsEndpoint fresh_writer (GET ''tmp/readme.txt/x'') example_world) =
       Return (Some 500, [''application/json''],
         ''{"code":500,"status":"error","message":"stat tmp/readme.txt/x: not a directory"}''
           @ [newline],
         ''tmp/readme.txt/x'', [SysStat ''tmp/readme.txt/x''])\<close>
proof -
  have h1: "fst (os_Stat (url_path (GET ''tmp/readme.txt/x'')) example_world) =
      Inl (PathError ''stat'' ''tmp/readme.txt/x'' ENOTDIR)"
    by (simp add: os_Stat_def example_files_def)
  have h2: "\<not> IsNotExist (Some (PathError ''stat'' ''tmp/readme.txt/x'' ENOTDIR))"
    by (simp add: errno_is_ErrNotExist_def)
  have h3: "\<not> IsPermission (Some (PathError ''stat'' ''tmp/readme.txt/x'' ENOTDIR))"
    by (simp add: errno_is_ErrPermission_def)
  have h4: "status fresh_writer = None" by simp
  from unclassified_stat_error_gives_500 [OF h1 h2 h3 h4] h1 h2 h3 h4 show ?thesis
    by (auto simp add: observe_def emit_def json_text)
qed

subsection \<open>Entries that are neither regular files nor directories\<close>

text \<open>
  C3, as amended: when stat succeeds and the entry is neither a regular file nor a
  directory, the resolver returns neither a descriptor nor an error, and the response
  has status 200, Content-Type application/json and the body \<^verbatim>\<open>null\<close> followed by a
  newline (the encoder marshals the nil result).
\<close>

theorem other_entry_gives_null:
  assumes stat: "fst (os_Stat (url_path r) s) = Inr fi"
    and notreg: "\<not> IsRegular (fi_Mode fi)"
    and notdir: "\<not> IsDir (fi_Mode fi)"
    and fresh: "status w = None"
  shows "statsEndpoint (url_path r) s = Return ((Nil, None), emit (SysStat (url_path r)) s)
       \<and> (\<exists>w'. handleEndpoint statsEndpoint w r s =
                  Return (w', r, emit (LogResp Nil) (emit (SysStat (url_path r)) s))
             \<and> status w' = Some 200
             \<and> sent_header w' ''Content-Type'' = [''application/json'']
             \<and> body w' = body w @ ''null'' @ [newline])"
proof -
  from stat have "stat_of s (url_path r) = Inr fi"
    by (simp add: os_Stat_succeeded)
  with notreg notdir have res:
    "statsEndpoint (url_path r) s = Return ((Nil, None), emit (SysStat (url_path r)) s)"
    by (simp add: statsEndpoint_other)
  let ?w = "Encode JNull (Header_Set ''Content-Type'' ''application/json'' w)"
  have h: "handleEndpoint statsEndpoint w r s =
      Return (?w, r, emit (LogResp Nil) (emit (SysStat (url_path r)) s))"
    using res by (simp add: handleEndpoint_def)
  have "status ?w = Some 200" "sent_header ?w ''Content-Type'' = [''application/json'']"
    "body ?w = body w @ ''null'' @ [newline]"
    using fresh
    by (simp_all add: Encode_def Write_def WriteHeader_def Header_Set_def StatusOK_def)
  with h res show ?thesis by simp
qed

theorem other_entry_gives_null_witness:
  "fst (os_Stat (url_path (GET ''dev/null'')) example_world) = Inr null_info
   \<and> \<not> IsRegular (fi_Mode null_info) \<and> \<not> IsDir (fi_Mode null_info)
   \<and> status fresh_writer = None
   \<and> statsEndpoint ''dev/null'' example_world =
        Return ((Nil, None), emit (SysStat ''dev/null'') example_world)
   \<and> observe (handleEndpoint statsEndpoint fresh_writer (GET ''dev/null'') example_world) =
        Return (Some 200, [''application/json''], ''null'' @ [newline], ''dev/null'',
                [SysStat ''dev/null'', LogResp Nil])"
proof -
  have h1: "fst (os_Stat (url_path (GET ''dev/null'')) example_world) = Inr null_info"
    by (simp add: os_Stat_def example_files_def)
  have h4: "status fresh_writer = None" by simp
  from other_entry_gives_null [OF h1 example_modes(8) example_modes(9) h4] h1 example_modes(8,9)
  show ?thesis
    by (auto simp add: observe_def emit_def)
qed

text \<open>
  The body is not empty: for the socket of the example world the request
  \<^verbatim>\<open>/api/stats/run/app.sock\<close> is answered with the five bytes \<^verbatim>\<open>null\<close> and newline.
\<close>

theorem other_entry_body_counterexample:
  "fst (os_Stat ''run/app.sock'' example_world) = Inr sock_info
   \<and> \<not> IsRegular (fi_Mode sock_info) \<and> \<not> IsDir (fi_Mode sock_info)
   \<and> observe (ServeAPI Redirect_plain ''/api'' () inner_echo fresh_writer
                (GET ''/api/stats/run/app.sock'') example_world) =
        Return (Some 200, [''application/json''], ''null'' @ [newline], ''run/app.sock'',
                [SysStat ''run/app.sock'', LogResp Nil])
   \<and> ''null'' @ [newline] \<noteq> []"
proof -
  have stat: "stat_of example_world ''run/app.sock'' = Inr sock_info"
    by (simp add: example_files_def)
  have res: "statsEndpoint ''run/app.sock'' example_world =
      Return ((Nil, None), emit (SysStat ''run/app.sock'') example_world)"
    using stat example_modes(6,7) by (rule statsEndpoint_other)
  have route: "ServeAPI Redirect_plain ''/api'' () inner_echo fresh_writer
        (GET ''/api/stats/run/app.sock'') example_world =
      handleEndpoint statsEndpoint fresh_writer
        ((GET ''/api/stats/run/app.sock'')\<lparr>url_path := ''run/app.sock''\<rparr>) example_world"
    by (simp add: ServeAPI_def TrimRight_def HasPrefix_def GET_def)
  show ?thesis
    using stat example_modes(6,7)
    by (simp add: route handleEndpoint_def res observe_def emit_def os_Stat_def
        Encode_def Write_def WriteHeader_def Header_Set_def StatusOK_def)
qed

subsection \<open>Files that stat shows and open refuses\<close>

text \<open>
  When the open probe of a regular file fails with the cause EACCES, whose text is
  "permission denied", the resolver returns the domain error with code 403 and the
  response has status 403. After any failure of the open probe the resolver returns no
  descriptor and the status is not 200.
\<close>

lemma open_denied_gives_403:
  assumes stat: "fst (os_Stat (url_path r) s) = Inr fi"
    and reg: "IsRegular (fi_Mode fi)"
    and opn: "open_of s (url_path r) = Some EACCES"
    and fresh: "status w = None"
  shows "statsEndpoint (url_path r) s =
           Return ((Nil, Some (StatErr \<lparr>Code = 403, Path = url_path r\<rparr>)),
                   emit (SysOpen (url_path r)) (emit (SysStat (url_path r)) s))
       \<and> (\<exists>w'. handleEndpoint statsEndpoint w r s =
                  Return (w', r, emit (SysOpen (url_path r)) (emit (SysStat (url_path r)) s))
             \<and> status w' = Some 403)"
proof -
  from stat have "stat_of s (url_path r) = Inr fi"
    by (simp add: os_Stat_succeeded)
  from statsEndpoint_open_failed [OF this reg opn]
  have res: "statsEndpoint (url_path r) s =
           Return ((Nil, Some (StatErr \<lparr>Code = 403, Path = url_path r\<rparr>)),
                   emit (SysOpen (url_path r)) (emit (SysStat (url_path r)) s))"
    by (simp add: NewStatError_def StatusForbidden_def)
  then show ?thesis using fresh
    by (simp add: handleEndpoint_def Encode_def Write_def WriteHeader_def Header_Set_def
        MarshalJSON_StatError_def)
qed

lemma open_failed_no_descriptor:
  assumes stat: "fst (os_Stat (url_path r) s) = Inr fi"
    and reg: "IsRegular (fi_Mode fi)"
    and opn: "open_of s (url_path r) = Some e"
    and fresh: "status w = None"
  shows "\<exists>err w' s'. statsEndpoint (url_path r) s = Return ((Nil, Some err), s')
       \<and> handleEndpoint statsEndpoint w r s = Return (w', r, s')
       \<and> (status w' = Some 403 \<or> status w' = Some 500)"
proof -
  from stat have "stat_of s (url_path r) = Inr fi"
    by (simp add: os_Stat_succeeded)
  from statsEndpoint_open_failed [OF this reg opn] fresh show ?thesis
    by (simp add: handleEndpoint_def Encode_def Write_def WriteHeader_def Header_Set_def
        MarshalJSON_StatError_def NewStatError_def StatusForbidden_def
        StatusInternalServerError_def)
qed

text \<open>
  C4 does not hold for every permission error. EPERM is a permission error of package os
  (\<^verbatim>\<open>os.IsPermission\<close> holds for it), but its text is "operation not permitted", so the
  comparison with the text of \<^verbatim>\<open>os.ErrPermission\<close> fails: for the file \<^verbatim>\<open>guarded.txt\<close> of
  the example world, which stat shows as a regular file and open refuses with EPERM, the
  resolver returns the \<^verbatim>\<open>*PathError\<close> unclassified and the response has status 500.
\<close>

theorem open_EPERM_gives_500:
  \<open>fst (os_Stat ''guarded.txt'' example_world) = Inr guarded_info
   \<and> IsRegular (fi_Mode guarded_info)
   \<and> fst (os_OpenFile_RDONLY ''guarded.txt'' (emit (SysStat ''guarded.txt'') example_world)) =
        Inl (PathError ''open'' ''guarded.txt'' EPERM)
   \<and> IsPermission (Some (PathError ''open'' ''guarded.txt'' EPERM))
   \<and> statsEndpoint ''guarded.txt'' example_world =
        Return ((Nil, Some (PathError ''open'' ''guarded.txt'' EPERM)),
                emit (SysOpen ''guarded.txt'') (emit (SysStat ''guarded.txt'') example_world))
   \<and> observe (ServeAPI Redirect_plain ''/api'' () inner_echo fresh_writer
                (GET ''/api/stats/guarded.txt'') example_world) =
        Return (Some 500, [''application/json''],
          ''{"code":500,"status":"error","message":"open guarded.txt: operation not permitted"}''
            @ [newline],
          ''guarded.txt'', [SysStat ''guarded.txt'', SysOpen ''guarded.txt''])\<close>
proof -
  have stat: "stat_of example_world ''guarded.txt'' = Inr guarded_info"
    by (simp add: example_files_def)
  have opn: "open_of example_world ''guarded.txt'' = Some EPERM"
    by (simp add: example_files_def)
  have res: "statsEndpoint ''guarded.txt'' example_world =
        Return ((Nil, Some (PathError ''open'' ''guarded.txt'' EPERM)),
                emit (SysOpen ''guarded.txt'') (emit (SysStat ''guarded.txt'') example_world))"
    using statsEndpoint_open_failed [OF stat example_modes(3) opn] by simp
  have route: "ServeAPI Redirect_plain ''/api'' () inner_echo fresh_writer
        (GET ''/api/stats/guarded.txt'') example_world =
      handleEndpoint statsEndpoint fresh_writer
        ((GET ''/api/stats/guarded.txt'')\<lparr>url_path := ''guarded.txt''\<rparr>) example_world"
    by (simp add: ServeAPI_def TrimRight_def HasPrefix_def GET_def)
  have enc: \<open>Marshal (JObject [(''code'', JInt 500), (''status'', JString ''error''),
             (''message'', JString ''open guarded.txt: operation not permitted'')]) =
      Some ''{"code":500,"status":"error","message":"open guarded.txt: operation not permitted"}''\<close>
    by (simp add: json_text)
  have \<open>observe (ServeAPI Redirect_plain ''/api'' () inner_echo fresh_writer
                (GET ''/api/stats/guarded.txt'') example_world) =
        Return (Some 500, [''application/json''],
          ''{"code":500,"status":"error","message":"open guarded.txt: operation not permitted"}''
            @ [newline],
          ''guarded.txt'', [SysStat ''guarded.txt'', SysOpen ''guarded.txt''])\<close>
    by (simp add: route handleEndpoint_def res observe_def emit_def Encode_def enc Write_def
        WriteHeader_def Header_Set_def StatusInternalServerError_def del: Marshal.simps)
  then show ?thesis
    using stat opn res example_modes(3)
    by (simp add: os_Stat_def os_OpenFile_RDONLY_def emit_def errno_is_ErrPermission_def)
qed

subsection \<open>Successful resolutions\<close>

text \<open>
  C6, as amended: when the resolver returns a descriptor and no error, and the
  descriptor marshals (\<^verbatim>\<open>Time.MarshalJSON\<close> accepts its modification time), the response
  has status 200 and Content-Type application/json, and its body is the marshalled
  descriptor and a newline. A file descriptor marshals to the object with the fields
  type = "file", name, path, size and mtime; a directory descriptor to the object with
  the fields type = "directory", name, path and mtime, which has no field size.
\<close>

theorem success_gives_200_with_type:
  assumes res: "statsEndpoint (url_path r) s = Return ((resp, None), s1)"
    and desc: "resp \<noteq> Nil"
    and enc: "Marshal (json_of resp) = Some b"
    and fresh: "status w = None"
  shows "(\<exists>w'. handleEndpoint statsEndpoint w r s = Return (w', r, emit (LogResp resp) s1)
            \<and> status w' = Some 200
            \<and> sent_header w' ''Content-Type'' = [''application/json'']
            \<and> body w' = body w @ b @ [newline])
       \<and> (case resp of
             File f \<Rightarrow>
               json_of resp =
                 JObject [(''type'', JString ''file''), (''name'', JString (FileStat.Name f)),
                          (''path'', JString (FileStat.Path f)), (''size'', JInt (Size f)),
                          (''mtime'', JTime (FileStat.MTime f))]
               \<and> Time_MarshalJSON (FileStat.MTime f) \<noteq> None
           | Dir d \<Rightarrow>
               json_of resp =
                 JObject [(''type'', JString ''directory''), (''name'', JString (DirStat.Name d)),
                          (''path'', JString (DirStat.Path d)),
                          (''mtime'', JTime (DirStat.MTime d))]
               \<and> keys (json_of resp) = [''type'', ''name'', ''path'', ''mtime'']
               \<and> ''size'' \<notin> set (keys (json_of resp))
               \<and> Time_MarshalJSON (DirStat.MTime d) \<noteq> None
           | Nil \<Rightarrow> False)"
proof -
  let ?w = "Encode (json_of resp) (Header_Set ''Content-Type'' ''application/json'' w)"
  have h: "handleEndpoint statsEndpoint w r s = Return (?w, r, emit (LogResp resp) s1)"
    using res by (simp add: handleEndpoint_def)
  have "status ?w = Some 200" "sent_header ?w ''Content-Type'' = [''application/json'']"
    "body ?w = body w @ b @ [newline]"
    by (simp_all add: Encode_first_write [OF fresh enc])
  with h have first: "\<exists>w'. handleEndpoint statsEndpoint w r s = Return (w', r, emit (LogResp resp) s1)
            \<and> status w' = Some 200
            \<and> sent_header w' ''Content-Type'' = [''application/json'']
            \<and> body w' = body w @ b @ [newline]"
    by simp
  have "case resp of
             File f \<Rightarrow>
               json_of resp =
                 JObject [(''type'', JString ''file''), (''name'', JString (FileStat.Name f)),
                          (''path'', JString (FileStat.Path f)), (''size'', JInt (Size f)),
                          (''mtime'', JTime (FileStat.MTime f))]
               \<and> Time_MarshalJSON (FileStat.MTime f) \<noteq> None
           | Dir d \<Rightarrow>
               json_of resp =
                 JObject [(''type'', JString ''directory''), (''name'', JString (DirStat.Name d)),
                          (''path'', JString (DirStat.Path d)),
                          (''mtime'', JTime (DirStat.MTime d))]
               \<and> keys (json_of resp) = [''type'', ''name'', ''path'', ''mtime'']
               \<and> ''size'' \<notin> set (keys (json_of resp))
               \<and> Time_MarshalJSON (DirStat.MTime d) \<noteq> None
           | Nil \<Rightarrow> False"
  proof (cases resp)
    case Nil
    with desc show ?thesis by simp
  next
    case (File f)
    with enc have "Time_MarshalJSON (FileStat.MTime f) \<noteq> None"
      using Marshal_FileStat [of f] by auto
    with File show ?thesis by (simp add: MarshalJSON_FileStat_def)
  next
    case (Dir d)
    with enc have "Time_MarshalJSON (DirStat.MTime d) \<noteq> None"
      using Marshal_DirStat [of d] by auto
    with Dir show ?thesis by (simp add: MarshalJSON_DirStat_def)
  qed
  with first show ?thesis by simp
qed

theorem success_gives_200_with_type_witness:
  \<open>statsEndpoint (url_path (GET ''tmp'')) example_world =
      Return ((Dir \<lparr>DirStat.Name = ''tmp'', DirStat.Path = ''tmp'',
                     DirStat.MTime = RFC3339 ''2023-01-02T08:30:00Z''\<rparr>, None),
              emit (SysStat ''tmp'') example_world)
   \<and> statsEndpoint (url_path (GET ''/tmp/readme.txt'')) example_world =
      Return ((File \<lparr>FileStat.Name = ''readme.txt'', FileStat.Path = ''/tmp/readme.txt'',
                      Size = 1024, FileStat.MTime = RFC3339 ''2023-01-01T00:00:00Z''\<rparr>, None),
              emit (SysClose ''/tmp/readme.txt'') (emit (SysOpen ''/tmp/readme.txt'')
                (emit (SysStat ''/tmp/readme.txt'') example_world)))
   \<and> Marshal (json_of (Dir \<lparr>DirStat.Name = ''tmp'', DirStat.Path = ''tmp'',
                     DirStat.MTime = RFC3339 ''2023-01-02T08:30:00Z''\<rparr>)) =
      Some ''{"type":"directory","name":"tmp","path":"tmp","mtime":"2023-01-02T08:30:00Z"}''
   \<and> Marshal (json_of (File \<lparr>FileStat.Name = ''readme.txt'',
                      FileStat.Path = ''/tmp/readme.txt'', Size = 1024,
                      FileStat.MTime = RFC3339 ''2023-01-01T00:00:00Z''\<rparr>)) =
      Some ''{"type":"file","name":"readme.txt","path":"/tmp/readme.txt","size":1024,"mtime":"2023-01-01T00:00:00Z"}''
   \<and> status fresh_writer = None
   \<and> observe (handleEndpoint statsEndpoint fresh_writer (GET ''tmp'') example_world) =
      Return (Some 200, [''application/json''],
        ''{"type":"directory","name":"tmp","path":"tmp","mtime":"2023-01-02T08:30:00Z"}''
          @ [newline],
        ''tmp'',
        [SysStat ''tmp'',
         LogResp (Dir \<lparr>DirStat.Name = ''tmp'', DirStat.Path = ''tmp'',
                        DirStat.MTime = RFC3339 ''2023-01-02T08:30:00Z''\<rparr>)])
   \<and> observe (handleEndpoint statsEndpoint fresh_writer (GET ''/tmp/readme.txt'') example_world) =
      Return (Some 200, [''application/json''],
        ''{"type":"file","name":"readme.txt","path":"/tmp/readme.txt","size":1024,"mtime":"2023-01-01T00:00:00Z"}''
          @ [newline],
        ''/tmp/readme.txt'',
        [SysStat ''/tmp/readme.txt'', SysOpen ''/tmp/readme.txt'', SysClose ''/tmp/readme.txt'',
         LogResp (File \<lparr>FileStat.Name = ''readme.txt'', FileStat.Path = ''/tmp/readme.txt'',
                      Size = 1024, FileStat.MTime = RFC3339 ''2023-01-01T00:00:00Z''\<rparr>)])\<close>
proof -
  have d: "statsEndpoint (url_path (GET ''tmp'')) example_world =
      Return ((Dir \<lparr>DirStat.Name = ''tmp'', DirStat.Path = ''tmp'',
                     DirStat.MTime = RFC3339 ''2023-01-02T08:30:00Z''\<rparr>, None),
              emit (SysStat ''tmp'') example_world)"
    using statsEndpoint_dir [of example_world "''tmp''" tmp_info] example_modes(4,5)
    by (simp add: example_files_def) (simp add: tmp_info_def)
  have f: "statsEndpoint (url_path (GET ''/tmp/readme.txt'')) example_world =
      Return ((File \<lparr>FileStat.Name = ''readme.txt'', FileStat.Path = ''/tmp/readme.txt'',
                      Size = 1024, FileStat.MTime = RFC3339 ''2023-01-01T00:00:00Z''\<rparr>, None),
              emit (SysClose ''/tmp/readme.txt'') (emit (SysOpen ''/tmp/readme.txt'')
                (emit (SysStat ''/tmp/readme.txt'') example_world)))"
    using statsEndpoint_file [of example_world "''/tmp/readme.txt''" readme_info] example_modes(1)
    by (simp add: example_files_def) (simp add: readme_info_def)
  have ed: \<open>Marshal (json_of (Dir \<lparr>DirStat.Name = ''tmp'', DirStat.Path = ''tmp'',
                     DirStat.MTime = RFC3339 ''2023-01-02T08:30:00Z''\<rparr>)) =
      Some ''{"type":"directory","name":"tmp","path":"tmp","mtime":"2023-01-02T08:30:00Z"}''\<close>
    by (simp add: MarshalJSON_DirStat_def Time_MarshalJSON_def json_text)
  have ef: \<open>Marshal (json_of (File \<lparr>FileStat.Name = ''readme.txt'',
                      FileStat.Path = ''/tmp/readme.txt'', Size = 1024,
                      FileStat.MTime = RFC3339 ''2023-01-01T00:00:00Z''\<rparr>)) =
      Some ''{"type":"file","name":"readme.txt","path":"/tmp/readme.txt","size":1024,"mtime":"2023-01-01T00:00:00Z"}''\<close>
    by (simp add: MarshalJSON_FileStat_def Time_MarshalJSON_def json_text)
  have h: "status fresh_writer = None" by simp
  have nd: "Dir \<lparr>DirStat.Name = ''tmp'', DirStat.Path = ''tmp'',
                     DirStat.MTime = RFC3339 ''2023-01-02T08:30:00Z''\<rparr> \<noteq> Nil" by simp
  have nf: "File \<lparr>FileStat.Name = ''readme.txt'', FileStat.Path = ''/tmp/readme.txt'',
                      Size = 1024, FileStat.MTime = RFC3339 ''2023-01-01T00:00:00Z''\<rparr> \<noteq> Nil"
    by simp
  from success_gives_200_with_type [OF d nd ed h]
  have \<open>\<exists>w'. handleEndpoint statsEndpoint fresh_writer (GET ''tmp'') example_world =
        Return (w', GET ''tmp'',
          emit (LogResp (Dir \<lparr>DirStat.Name = ''tmp'', DirStat.Path = ''tmp'',
                     DirStat.MTime = RFC3339 ''2023-01-02T08:30:00Z''\<rparr>))
            (emit (SysStat ''tmp'') example_world))
      \<and> status w' = Some 200
      \<and> sent_header w' ''Content-Type'' = [''application/json'']
      \<and> body w' = body fresh_writer
          @ ''{"type":"directory","name":"tmp","path":"tmp","mtime":"2023-01-02T08:30:00Z"}''
          @ [newline]\<close>
    by (rule conjunct1)
  then have od: \<open>observe (handleEndpoint statsEndpoint fresh_writer (GET ''tmp'') example_world) =
      Return (Some 200, [''application/json''],
        ''{"type":"directory","name":"tmp","path":"tmp","mtime":"2023-01-02T08:30:00Z"}''
          @ [newline],
        ''tmp'',
        [SysStat ''tmp'',
         LogResp (Dir \<lparr>DirStat.Name = ''tmp'', DirStat.Path = ''tmp'',
                        DirStat.MTime = RFC3339 ''2023-01-02T08:30:00Z''\<rparr>)])\<close>
    by (auto simp add: observe_def emit_def)
  from success_gives_200_with_type [OF f nf ef h]
  have \<open>\<exists>w'. handleEndpoint statsEndpoint fresh_writer (GET ''/tmp/readme.txt'') example_world =
        Return (w', GET ''/tmp/readme.txt'',
          emit (LogResp (File \<lparr>FileStat.Name = ''readme.txt'',
                      FileStat.Path = ''/tmp/readme.txt'', Size = 1024,
                      FileStat.MTime = RFC3339 ''2023-01-01T00:00:00Z''\<rparr>))
            (emit (SysClose ''/tmp/readme.txt'') (emit (SysOpen ''/tmp/readme.txt'')
                (emit (SysStat ''/tmp/readme.txt'') example_world))))
      \<and> status w' = Some 200
      \<and> sent_header w' ''Content-Type'' = [''application/json'']
      \<and> body w' = body fresh_writer
          @ ''{"type":"file","name":"readme.txt","path":"/tmp/readme.txt","size":1024,"mtime":"2023-01-01T00:00:00Z"}''
          @ [newline]\<close>
    by (rule conjunct1)
  then have \<open>observe (handleEndpoint statsEndpoint fresh_writer (GET ''/tmp/readme.txt'')
            example_world) =
      Return (Some 200, [''application/json''],
        ''{"type":"file","name":"readme.txt","path":"/tmp/readme.txt","size":1024,"mtime":"2023-01-01T00:00:00Z"}''
          @ [newline],
        ''/tmp/readme.txt'',
        [SysStat ''/tmp/readme.txt'', SysOpen ''/tmp/readme.txt'', SysClose ''/tmp/readme.txt'',
         LogResp (File \<lparr>FileStat.Name = ''readme.txt'', FileStat.Path = ''/tmp/readme.txt'',
                      Size = 1024, FileStat.MTime = RFC3339 ''2023-01-01T00:00:00Z''\<rparr>)])\<close>
    by (auto simp add: observe_def emit_def)
  with od d f ed ef h show ?thesis
    by (simp del: json_of.simps Marshal.simps)
qed

text \<open>
  The claim as written fails for a descriptor that does not marshal. The file
  \<^verbatim>\<open>future.txt\<close> of the example world has a modification time in the year 10000: the
  resolver returns its descriptor and no error, \<^verbatim>\<open>Time.MarshalJSON\<close> refuses the time, the
  encoder writes nothing and its error is dropped. The handler returns without having
  written; the server then sends status 200 with an empty body, which carries no field
  type.
\<close>

theorem success_without_body_counterexample:
  "statsEndpoint ''future.txt'' example_world =
      Return ((File \<lparr>FileStat.Name = ''future.txt'', FileStat.Path = ''future.txt'',
                      Size = 3, FileStat.MTime = RFC3339 ''10000-01-01T00:00:00Z''\<rparr>, None),
              emit (SysClose ''future.txt'') (emit (SysOpen ''future.txt'')
                (emit (SysStat ''future.txt'') example_world)))
   \<and> Time_MarshalJSON (RFC3339 ''10000-01-01T00:00:00Z'') = None
   \<and> observe (ServeAPI Redirect_plain ''/api'' () inner_echo fresh_writer
                (GET ''/api/stats/future.txt'') example_world) =
      Return (None, [], [], ''future.txt'',
        [SysStat ''future.txt'', SysOpen ''future.txt'', SysClose ''future.txt'',
         LogResp (File \<lparr>FileStat.Name = ''future.txt'', FileStat.Path = ''future.txt'',
                      Size = 3, FileStat.MTime = RFC3339 ''10000-01-01T00:00:00Z''\<rparr>)])
   \<and> observe (finished (ServeAPI Redirect_plain ''/api'' () inner_echo fresh_writer
                (GET ''/api/stats/future.txt'') example_world)) =
      Return (Some 200, [''application/json''], [], ''future.txt'',
        [SysStat ''future.txt'', SysOpen ''future.txt'', SysClose ''future.txt'',
         LogResp (File \<lparr>FileStat.Name = ''future.txt'', FileStat.Path = ''future.txt'',
                      Size = 3, FileStat.MTime = RFC3339 ''10000-01-01T00:00:00Z''\<rparr>)])"
proof -
  have stat: "stat_of example_world ''future.txt'' = Inr future_info"
    by (simp add: example_files_def)
  have opn: "open_of example_world ''future.txt'' = None"
    by (simp add: example_files_def)
  have reg: "IsRegular (fi_Mode future_info)"
    by (simp add: future_info_def IsRegular_def ModeType_def ModeDir_def ModeSymlink_def
        ModeDevice_def ModeNamedPipe_def ModeSocket_def ModeCharDevice_def ModeIrregular_def)
  have res: "statsEndpoint ''future.txt'' example_world =
      Return ((File \<lparr>FileStat.Name = ''future.txt'', FileStat.Path = ''future.txt'',
                      Size = 3, FileStat.MTime = RFC3339 ''10000-01-01T00:00:00Z''\<rparr>, None),
              emit (SysClose ''future.txt'') (emit (SysOpen ''future.txt'')
                (emit (SysStat ''future.txt'') example_world)))"
    using statsEndpoint_file [OF stat reg opn] by (simp add: future_info_def)
  have time: "Time_MarshalJSON (RFC3339 ''10000-01-01T00:00:00Z'') = None"
    by (simp add: Time_MarshalJSON_def)
  have enc: "Marshal (json_of (File \<lparr>FileStat.Name = ''future.txt'',
       FileStat.Path = ''future.txt'', Size = 3,
       FileStat.MTime = RFC3339 ''10000-01-01T00:00:00Z''\<rparr>)) = None"
    using time by (simp add: Marshal_FileStat)
  have route: "ServeAPI Redirect_plain ''/api'' () inner_echo fresh_writer
        (GET ''/api/stats/future.txt'') example_world =
      handleEndpoint statsEndpoint fresh_writer
        ((GET ''/api/stats/future.txt'')\<lparr>url_path := ''future.txt''\<rparr>) example_world"
    by (simp add: ServeAPI_def TrimRight_def HasPrefix_def GET_def)
  have run: "ServeAPI Redirect_plain ''/api'' () inner_echo fresh_writer
        (GET ''/api/stats/future.txt'') example_world =
      Return (Header_Set ''Content-Type'' ''application/json'' fresh_writer,
        (GET ''/api/stats/future.txt'')\<lparr>url_path := ''future.txt''\<rparr>,
        emit (LogResp (File \<lparr>FileStat.Name = ''future.txt'', FileStat.Path = ''future.txt'',
                      Size = 3, FileStat.MTime = RFC3339 ''10000-01-01T00:00:00Z''\<rparr>))
          (emit (SysClose ''future.txt'') (emit (SysOpen ''future.txt'')
            (emit (SysStat ''future.txt'') example_world))))"
    by (simp add: route handleEndpoint_def res Encode_failed [OF enc]
        del: json_of.simps Marshal.simps)
  show ?thesis
    unfolding run res
    by (simp add: time observe_def finished_def emit_def Header_Set_def
        finishRequest_def WriteHeader_def StatusOK_def fresh_writer_def)
qed

subsection \<open>The domain errors of the resolver\<close>

lemma statsEndpoint_StatErr:
  assumes "statsEndpoint p s = Return ((resp, Some (StatErr serr)), s1)"
  shows "resp = Nil \<and> (serr = NewStatError StatusNotFound p \<or> serr = NewStatError StatusForbidden p)"
proof (cases "stat_of s p")
  case (Inl e)
  from statsEndpoint_stat_failed [OF Inl] assms show ?thesis
    by (auto split: if_splits)
next
  case (Inr fi)
  show ?thesis
  proof (cases "IsRegular (fi_Mode fi)")
    case True
    show ?thesis
    proof (cases "open_of s p")
      case None
      from statsEndpoint_file [OF Inr True None] assms show ?thesis by simp
    next
      case (Some e)
      from statsEndpoint_open_failed [OF Inr True Some] assms show ?thesis
        by (auto split: if_splits)
    qed
  next
    case False
    then show ?thesis
      using statsEndpoint_dir [OF Inr False] statsEndpoint_other [OF Inr False] assms
      by (cases "IsDir (fi_Mode fi)") simp_all
  qed
qed

text \<open>
  C10: every \<^verbatim>\<open>StatError\<close> that the resolver returns has code 403 or 404 (and carries the
  requested path, with no descriptor beside it); the response written for it has status
  403 with message "Forbidden" or status 404 with message "Not Found".
\<close>

theorem stat_errors_are_403_or_404:
  assumes res: "statsEndpoint (url_path r) s = Return ((resp, Some (StatErr serr)), s1)"
    and fresh: "status w = None"
  shows "(Code serr = 403 \<or> Code serr = 404)
       \<and> StatError.Path serr = url_path r \<and> resp = Nil
       \<and> (\<exists>w'. handleEndpoint statsEndpoint w r s = Return (w', r, s1)
             \<and> (status w' = Some 403 \<and> Message serr = ''Forbidden''
                \<or> status w' = Some 404 \<and> Message serr = ''Not Found'')
             \<and> sent_header w' ''Content-Type'' = [''application/json'']
             \<and> (\<exists>b. Marshal (JObject [(''status'', JString ''error''),
                   (''code'', JInt (Code serr)), (''path'', JString (url_path r)),
                   (''message'', JString (Message serr))]) = Some b
                 \<and> body w' = body w @ b @ [newline]))"
proof -
  from statsEndpoint_StatErr [OF res]
  have nil: "resp = Nil"
    and which: "serr = NewStatError StatusNotFound (url_path r)
              \<or> serr = NewStatError StatusForbidden (url_path r)"
    by simp_all
  from which have code: "Code serr = 404 \<and> Message serr = ''Not Found''
      \<or> Code serr = 403 \<and> Message serr = ''Forbidden''"
    using Message_404 [of "url_path r"] Message_403 [of "url_path r"]
    by (auto simp add: NewStatError_def StatusNotFound_def StatusForbidden_def)
  from which have path: "StatError.Path serr = url_path r"
    by (auto simp add: NewStatError_def)
  let ?w = "Encode (MarshalJSON_StatError serr)
              (WriteHeader (Code serr) (Header_Set ''Content-Type'' ''application/json'' w))"
  have h: "handleEndpoint statsEndpoint w r s = Return (?w, r, s1)"
    using res by (simp add: handleEndpoint_def)
  obtain b where b: "Marshal (MarshalJSON_StatError serr) = Some b"
    using Marshal_StatError by blast
  with path have b': "Marshal (JObject [(''status'', JString ''error''),
                   (''code'', JInt (Code serr)), (''path'', JString (url_path r)),
                   (''message'', JString (Message serr))]) = Some b"
    by (simp add: MarshalJSON_StatError_def)
  have "status ?w = Some (Code serr)"
    "sent_header ?w ''Content-Type'' = [''application/json'']"
    "body ?w = body w @ b @ [newline]"
    by (simp_all add: Encode_with_status [OF fresh b])
  with h code path nil b' show ?thesis by auto
qed

theorem stat_errors_are_403_or_404_witness:
  \<open>statsEndpoint (url_path (GET ''private/key'')) example_world =
      Return ((Nil, Some (StatErr \<lparr>Code = 403, Path = ''private/key''\<rparr>)),
              emit (SysStat ''private/key'') example_world)
   \<and> status fresh_writer = None
   \<and> observe (handleEndpoint statsEndpoint fresh_writer (GET ''private/key'') example_world) =
      Return (Some 403, [''application/json''],
        ''{"status":"error","code":403,"path":"private/key","message":"Forbidden"}'' @ [newline],
        ''private/key'', [SysStat ''private/key''])\<close>
proof -
  have st: "stat_of example_world ''private/key'' = Inl EACCES"
    by (simp add: example_files_def)
  have res: "statsEndpoint (url_path (GET ''private/key'')) example_world =
      Return ((Nil, Some (StatErr \<lparr>Code = 403, Path = ''private/key''\<rparr>)),
              emit (SysStat ''private/key'') example_world)"
    using statsEndpoint_stat_failed [OF st]
    by (simp add: NewStatError_def StatusForbidden_def)
  have h: "status fresh_writer = None" by simp
  from stat_errors_are_403_or_404 [OF res h] res show ?thesis
    by (auto simp add: observe_def emit_def json_text Message_def StatusText_403)
qed

subsection \<open>Determinism\<close>

text \<open>The resolver and the encoder read the file system and never change it.\<close>

lemma emit_keeps_files [simp]:
  "stat_of (emit e s) = stat_of s" "open_of (emit e s) = open_of s"
  by (simp_all add: emit_def)

lemma statsEndpoint_keeps_files:
  assumes "statsEndpoint p s = Return (res, s1)"
  shows "stat_of s1 = stat_of s \<and> open_of s1 = open_of s"
  using assms
  by (auto simp add: statsEndpoint_def os_Stat_def os_OpenFile_RDONLY_def file_Close_def Let_def
      split: sum.splits option.splits if_splits go_error.splits)

lemma statsEndpoint_reads_files_only:
  assumes "stat_of s2 = stat_of s1" and "open_of s2 = open_of s1"
  shows "map_outcome fst (statsEndpoint p s1) = map_outcome fst (statsEndpoint p s2)"
  using assms
  by (auto simp add: statsEndpoint_def os_Stat_def os_OpenFile_RDONLY_def file_Close_def Let_def
      split: sum.splits option.splits if_splits go_error.splits)

text \<open>The resolver never panics in a world whose stat and open fail with \<^verbatim>\<open>*PathError\<close>
  only, and leaves the request as it is.\<close>

lemma statsEndpoint_returns:
  "\<exists>res s'. statsEndpoint p s = Return (res, s') \<and> stat_of s' = stat_of s \<and> open_of s' = open_of s"
  by (auto simp add: statsEndpoint_def os_Stat_def os_OpenFile_RDONLY_def file_Close_def Let_def
      split: sum.splits option.splits if_splits)

lemma handleEndpoint_stats_returns:
  "\<exists>w' s'. handleEndpoint statsEndpoint w r s = Return (w', r, s')
     \<and> stat_of s' = stat_of s \<and> open_of s' = open_of s"
proof -
  from statsEndpoint_returns [of "url_path r" s]
  obtain resp err s1 where "statsEndpoint (url_path r) s = Return ((resp, err), s1)"
    and "stat_of s1 = stat_of s" "open_of s1 = open_of s"
    by auto
  then show ?thesis
    by (auto simp add: handleEndpoint_def split: option.splits go_error.splits)
qed

text \<open>
  C9: two worlds with the same answers of stat and open, whatever their traces (the log
  is part of the trace), give the same resolver outcome and the same response to the
  same stats request; and a stats request leaves the answers of stat and open as they
  were, so that the request repeated afterwards is answered the same.
\<close>

theorem stats_response_deterministic:
  assumes stat: "stat_of s2 = stat_of s1" and opn: "open_of s2 = open_of s1"
  shows "map_outcome fst (statsEndpoint (url_path r) s1) =
           map_outcome fst (statsEndpoint (url_path r) s2)
       \<and> response_of (handleEndpoint statsEndpoint w r s1) =
           response_of (handleEndpoint statsEndpoint w r s2)
       \<and> (\<exists>w' r' s'. handleEndpoint statsEndpoint w r s1 = Return (w', r', s')
             \<and> stat_of s' = stat_of s1 \<and> open_of s' = open_of s1
             \<and> response_of (handleEndpoint statsEndpoint w r s') = Return (w', r'))"
proof -
  have same: "map_outcome fst (statsEndpoint (url_path r) s1) =
           map_outcome fst (statsEndpoint (url_path r) s2)"
    using stat opn by (rule statsEndpoint_reads_files_only)
  have resp: "response_of (handleEndpoint statsEndpoint w r a) =
           response_of (handleEndpoint statsEndpoint w r b)"
    if "map_outcome fst (statsEndpoint (url_path r) a) =
           map_outcome fst (statsEndpoint (url_path r) b)" for a b
    using that
    by (cases "statsEndpoint (url_path r) a"; cases "statsEndpoint (url_path r) b")
       (auto simp add: handleEndpoint_def response_of_def split: option.splits go_error.splits)
  from handleEndpoint_stats_returns [of w r s1]
  obtain w' s' where run: "handleEndpoint statsEndpoint w r s1 = Return (w', r, s')"
    and keep: "stat_of s' = stat_of s1" "open_of s' = open_of s1"
    by blast
  have "response_of (handleEndpoint statsEndpoint w r s') =
      response_of (handleEndpoint statsEndpoint w r s1)"
    by (rule resp) (rule statsEndpoint_reads_files_only [OF keep(1) keep(2), symmetric])
  with run have "response_of (handleEndpoint statsEndpoint w r s') = Return (w', r)"
    by (simp add: response_of_def)
  with run keep same resp [OF same] show ?thesis by blast
qed

theorem stats_response_deterministic_witness:
  "stat_of (emit (LogResp Nil) example_world) = stat_of example_world
   \<and> open_of (emit (LogResp Nil) example_world) = open_of example_world
   \<and> map_outcome fst (statsEndpoint (url_path (GET ''tmp'')) example_world) =
       map_outcome fst (statsEndpoint (url_path (GET ''tmp'')) (emit (LogResp Nil) example_world))
   \<and> response_of (handleEndpoint statsEndpoint fresh_writer (GET ''tmp'') example_world) =
       response_of (handleEndpoint statsEndpoint fresh_writer (GET ''tmp'')
                      (emit (LogResp Nil) example_world))
   \<and> trace (emit (LogResp Nil) example_world) \<noteq> trace example_world"
proof -
  have h1: "stat_of (emit (LogResp Nil) example_world) = stat_of example_world" by simp
  have h2: "open_of (emit (LogResp Nil) example_world) = open_of example_world" by simp
  from stats_response_deterministic [OF h1 h2, of "GET ''tmp''" fresh_writer] h1 h2
  show ?thesis by (simp add: emit_def)
qed

subsection \<open>Routing\<close>

lemma HasPrefix_length: "HasPrefix s p \<Longrightarrow> length p \<le> length s"
  by (simp add: HasPrefix_def)

lemma HasPrefix_longer: "HasPrefix s (p @ ''/'') \<Longrightarrow> s \<noteq> p"
  by (auto simp add: HasPrefix_def)

lemma ServeAPI_stats_route:
  assumes "HasPrefix (url_path r) (TrimRight base ''/'' @ ''/'')"
    and "HasPrefix (TrimRight (drop (length (TrimRight base ''/'' @ ''/'')) (url_path r)) ''/'')
           ''stats/''"
  shows "ServeAPI Redirect base root inner w r s =
    handleEndpoint statsEndpoint w
      (r\<lparr>url_path :=
           drop 6 (TrimRight (drop (length (TrimRight base ''/'' @ ''/'')) (url_path r)) ''/'')\<rparr>) s"
  using assms HasPrefix_longer [OF assms(1)]
  by (simp add: ServeAPI_def Let_def)

lemma ServeAPI_no_endpoint:
  assumes "HasPrefix (url_path r) (TrimRight base ''/'' @ ''/'')"
    and "\<not> HasPrefix (TrimRight (drop (length (TrimRight base ''/'' @ ''/'')) (url_path r)) ''/'')
           ''stats/''"
  shows "ServeAPI Redirect base root inner w r s =
    Return (Encode (JObject [(''code'', JInt 404), (''status'', JString ''error''),
                             (''message'', JString ''not a valid API endpoint'')])
              (WriteHeader 404 (Header_Add ''Content-Type'' ''application/json'' w)),
            r\<lparr>url_path :=
                 TrimRight (drop (length (TrimRight base ''/'' @ ''/'')) (url_path r)) ''/''\<rparr>, s)"
  using assms HasPrefix_longer [OF assms(1)]
  by (simp add: ServeAPI_def Let_def StatusNotFound_def)

text \<open>
  C7: a request whose path starts with the base path and a slash, and whose remainder,
  with its trailing slashes removed, does not start with \<^verbatim>\<open>stats/\<close>, is answered with
  status 404 and the envelope with code 404, status "error" and message "not a valid API
  endpoint". The answer is the same for every inner handler and every world, and the
  world is returned as it was: neither the inner handler nor stat or open is called.
\<close>

theorem unknown_endpoint_gives_404:
  assumes pre: \<open>HasPrefix (url_path r) (TrimRight base ''/'' @ ''/'')\<close>
    and nostats:
      \<open>\<not> HasPrefix (TrimRight (drop (length (TrimRight base ''/'' @ ''/'')) (url_path r)) ''/'')
           ''stats/''\<close>
    and fresh: \<open>status w = None\<close>
  shows \<open>\<exists>w'. ServeAPI Redirect base root inner w r s =
             Return (w', r\<lparr>url_path :=
               TrimRight (drop (length (TrimRight base ''/'' @ ''/'')) (url_path r)) ''/''\<rparr>, s)
          \<and> status w' = Some 404
          \<and> sent_header w' ''Content-Type'' = header w ''Content-Type'' @ [''application/json'']
          \<and> body w' = body w
               @ ''{"code":404,"status":"error","message":"not a valid API endpoint"}''
               @ [newline]
          \<and> (\<forall>inner' s'. response_of (ServeAPI Redirect base root inner' w r s') =
                 response_of (ServeAPI Redirect base root inner w r s))\<close>
proof -
  let ?w = "Encode (JObject [(''code'', JInt 404), (''status'', JString ''error''),
                             (''message'', JString ''not a valid API endpoint'')])
              (WriteHeader 404 (Header_Add ''Content-Type'' ''application/json'' w))"
  have st: "status ?w = Some 404"
    using fresh by (simp add: Encode_def Write_def WriteHeader_def Header_Add_def)
  have hd: "sent_header ?w ''Content-Type'' = header w ''Content-Type'' @ [''application/json'']"
    using fresh by (simp add: Encode_def Write_def WriteHeader_def Header_Add_def)
  have bd: \<open>body ?w = body w
               @ ''{"code":404,"status":"error","message":"not a valid API endpoint"}''
               @ [newline]\<close>
    using fresh by (simp add: Encode_def Write_def WriteHeader_def Header_Add_def json_text)
  have ind: "response_of (ServeAPI Redirect base root inner' w r s') =
                 response_of (ServeAPI Redirect base root inner w r s)" for inner' s'
    by (simp add: ServeAPI_no_endpoint [OF pre nostats] response_of_def)
  from st hd bd ind show ?thesis
    by (simp add: ServeAPI_no_endpoint [OF pre nostats])
qed

theorem unknown_endpoint_gives_404_witness:
  \<open>HasPrefix (url_path (GET ''/api/static/app.js/'')) (TrimRight ''/api/'' ''/'' @ ''/'')
   \<and> \<not> HasPrefix (TrimRight (drop (length (TrimRight ''/api/'' ''/'' @ ''/''))
                      (url_path (GET ''/api/static/app.js/''))) ''/'') ''stats/''
   \<and> status fresh_writer = None
   \<and> observe (ServeAPI Redirect_plain ''/api/'' () inner_echo fresh_writer
                (GET ''/api/static/app.js/'') example_world) =
       Return (Some 404, [''application/json''],
         ''{"code":404,"status":"error","message":"not a valid API endpoint"}'' @ [newline],
         ''static/app.js'', [])\<close>
proof -
  have h1: "HasPrefix (url_path (GET ''/api/static/app.js/'')) (TrimRight ''/api/'' ''/'' @ ''/'')"
    by (simp add: HasPrefix_def TrimRight_def)
  have h2: "\<not> HasPrefix (TrimRight (drop (length (TrimRight ''/api/'' ''/'' @ ''/''))
                      (url_path (GET ''/api/static/app.js/''))) ''/'') ''stats/''"
    by (simp add: HasPrefix_def TrimRight_def)
  have h3: "status fresh_writer = None" by simp
  from unknown_endpoint_gives_404 [OF h1 h2 h3, of Redirect_plain "()" inner_echo example_world]
    h1 h2 h3
  show ?thesis
    by (auto simp add: observe_def TrimRight_def)
qed

text \<open>
  C8: a request whose path is neither the base path (without its trailing slashes) nor
  starts with the base path and a slash is handed to the inner handler with the same response writer, the same request
  and the same world, and the result of the middleware is the result of the inner
  handler.
\<close>

theorem outside_base_passes_through:
  assumes "url_path r \<noteq> TrimRight base ''/''"
    and "\<not> HasPrefix (url_path r) (TrimRight base ''/'' @ ''/'')"
  shows "ServeAPI Redirect base root inner w r s = inner w r s"
  using assms by (simp add: ServeAPI_def Let_def)

theorem outside_base_passes_through_witness:
  "url_path (GET ''/apix/stats/tmp'') \<noteq> TrimRight ''/api/'' ''/''
   \<and> \<not> HasPrefix (url_path (GET ''/apix/stats/tmp'')) (TrimRight ''/api/'' ''/'' @ ''/'')
   \<and> ServeAPI Redirect_plain ''/api/'' () inner_echo fresh_writer (GET ''/apix/stats/tmp'')
        example_world =
      inner_echo fresh_writer (GET ''/apix/stats/tmp'') example_world
   \<and> observe (ServeAPI Redirect_plain ''/api/'' () inner_echo fresh_writer
                (GET ''/apix/stats/tmp'') example_world) =
      Return (Some 200, [''text/plain; charset=utf-8''], ''inner: /apix/stats/tmp'',
              ''/apix/stats/tmp'', [])"
proof -
  have h1: "url_path (GET ''/apix/stats/tmp'') \<noteq> TrimRight ''/api/'' ''/''"
    by (simp add: TrimRight_def)
  have h2: "\<not> HasPrefix (url_path (GET ''/apix/stats/tmp'')) (TrimRight ''/api/'' ''/'' @ ''/'')"
    by (simp add: HasPrefix_def TrimRight_def)
  from outside_base_passes_through [OF h1 h2, of Redirect_plain "()" inner_echo fresh_writer
      example_world] h1 h2
  show ?thesis
    by (simp add: observe_def inner_echo_def Write_def WriteHeader_def Header_Set_def
        StatusOK_def)
qed

subsection \<open>The scenario of the specification\<close>

text \<open>
  C1, as amended: with base path \<^verbatim>\<open>/api\<close>, the request \<^verbatim>\<open>/api/stats/tmp/readme.txt\<close> makes
  the router pass the path \<^verbatim>\<open>tmp/readme.txt\<close>, without a leading slash, to the resolver.
  When that path is a regular file named readme.txt of 1024 bytes with modification
  time 2023-01-01T00:00:00Z that can be opened, the response has status 200 and
  Content-Type application/json, and its body is the file object with
  \<^verbatim>\<open>"path":"tmp/readme.txt"\<close>, followed by a newline; stat and open are called on
  \<^verbatim>\<open>tmp/readme.txt\<close>.
\<close>

theorem readme_scenario:
  assumes req: \<open>url_path r = ''/api/stats/tmp/readme.txt''\<close>
    and stat: \<open>fst (os_Stat ''tmp/readme.txt'' s) = Inr fi\<close>
    and name: \<open>fi_Name fi = ''readme.txt''\<close>
    and size: \<open>fi_Size fi = 1024\<close>
    and mtime: \<open>fi_ModTime fi = RFC3339 ''2023-01-01T00:00:00Z''\<close>
    and reg: \<open>IsRegular (fi_Mode fi)\<close>
    and opn: \<open>open_of s ''tmp/readme.txt'' = None\<close>
    and fresh: \<open>status w = None\<close>
  shows \<open>\<exists>w' s'. ServeAPI Redirect ''/api'' root inner w r s =
             Return (w', r\<lparr>url_path := ''tmp/readme.txt''\<rparr>, s')
          \<and> status w' = Some 200
          \<and> sent_header w' ''Content-Type'' = [''application/json'']
          \<and> body w' = body w
               @ ''{"type":"file","name":"readme.txt","path":"tmp/readme.txt","size":1024,"mtime":"2023-01-01T00:00:00Z"}''
               @ [newline]
          \<and> trace s' = trace s @
               [SysStat ''tmp/readme.txt'', SysOpen ''tmp/readme.txt'', SysClose ''tmp/readme.txt'',
                LogResp (File \<lparr>FileStat.Name = ''readme.txt'', FileStat.Path = ''tmp/readme.txt'',
                   Size = 1024, FileStat.MTime = RFC3339 ''2023-01-01T00:00:00Z''\<rparr>)]\<close>
proof -
  let ?f = "\<lparr>FileStat.Name = ''readme.txt'', FileStat.Path = ''tmp/readme.txt'',
                   Size = 1024, FileStat.MTime = RFC3339 ''2023-01-01T00:00:00Z''\<rparr>"
  have route: "ServeAPI Redirect ''/api'' root inner w r s =
      handleEndpoint statsEndpoint w (r\<lparr>url_path := ''tmp/readme.txt''\<rparr>) s"
    using req by (simp add: ServeAPI_def TrimRight_def HasPrefix_def)
  from stat have "stat_of s ''tmp/readme.txt'' = Inr fi"
    by (simp add: os_Stat_succeeded)
  from statsEndpoint_file [OF this reg opn] name size mtime
  have res: "statsEndpoint ''tmp/readme.txt'' s =
      Return ((File ?f, None),
        emit (SysClose ''tmp/readme.txt'') (emit (SysOpen ''tmp/readme.txt'')
          (emit (SysStat ''tmp/readme.txt'') s)))"
    by simp
  let ?w = "Encode (json_of (File ?f)) (Header_Set ''Content-Type'' ''application/json'' w)"
  let ?s = "emit (LogResp (File ?f)) (emit (SysClose ''tmp/readme.txt'')
      (emit (SysOpen ''tmp/readme.txt'') (emit (SysStat ''tmp/readme.txt'') s)))"
  have h: "ServeAPI Redirect ''/api'' root inner w r s =
      Return (?w, r\<lparr>url_path := ''tmp/readme.txt''\<rparr>, ?s)"
    using res by (simp add: route handleEndpoint_def)
  have enc: \<open>Marshal (MarshalJSON_FileStat ?f) =
      Some ''{"type":"file","name":"readme.txt","path":"tmp/readme.txt","size":1024,"mtime":"2023-01-01T00:00:00Z"}''\<close>
    by (simp add: MarshalJSON_FileStat_def Time_MarshalJSON_def json_text)
  have st: "status ?w = Some 200" "sent_header ?w ''Content-Type'' = [''application/json'']"
    by (simp_all add: Encode_first_write [OF fresh enc])
  have bd: \<open>body ?w = body w
      @ ''{"type":"file","name":"readme.txt","path":"tmp/readme.txt","size":1024,"mtime":"2023-01-01T00:00:00Z"}''
      @ [newline]\<close>
    by (simp add: Encode_first_write [OF fresh enc])
  have tr: "trace ?s = trace s @
               [SysStat ''tmp/readme.txt'', SysOpen ''tmp/readme.txt'', SysClose ''tmp/readme.txt'',
                LogResp (File ?f)]"
    by (simp add: emit_def)
  from h st bd tr show ?thesis by simp
qed

theorem readme_scenario_witness:
  \<open>url_path (GET ''/api/stats/tmp/readme.txt'') = ''/api/stats/tmp/readme.txt''
   \<and> fst (os_Stat ''tmp/readme.txt'' example_world) = Inr readme_info
   \<and> fi_Name readme_info = ''readme.txt'' \<and> fi_Size readme_info = 1024
   \<and> fi_ModTime readme_info = RFC3339 ''2023-01-01T00:00:00Z''
   \<and> IsRegular (fi_Mode readme_info)
   \<and> open_of example_world ''tmp/readme.txt'' = None
   \<and> status fresh_writer = None
   \<and> observe (ServeAPI Redirect_plain ''/api'' () inner_echo fresh_writer
                (GET ''/api/stats/tmp/readme.txt'') example_world) =
       Return (Some 200, [''application/json''],
         ''{"type":"file","name":"readme.txt","path":"tmp/readme.txt","size":1024,"mtime":"2023-01-01T00:00:00Z"}''
           @ [newline],
         ''tmp/readme.txt'',
         [SysStat ''tmp/readme.txt'', SysOpen ''tmp/readme.txt'', SysClose ''tmp/readme.txt'',
          LogResp (File \<lparr>FileStat.Name = ''readme.txt'', FileStat.Path = ''tmp/readme.txt'',
                   Size = 1024, FileStat.MTime = RFC3339 ''2023-01-01T00:00:00Z''\<rparr>)])\<close>
proof -
  have h1: "url_path (GET ''/api/stats/tmp/readme.txt'') = ''/api/stats/tmp/readme.txt''"
    by simp
  have h2: "fst (os_Stat ''tmp/readme.txt'' example_world) = Inr readme_info"
    by (simp add: os_Stat_def example_files_def)
  have h3: "fi_Name readme_info = ''readme.txt''" by (simp add: readme_info_def)
  have h4: "fi_Size readme_info = 1024" by (simp add: readme_info_def)
  have h5: "fi_ModTime readme_info = RFC3339 ''2023-01-01T00:00:00Z''"
    by (simp add: readme_info_def)
  have h7: "open_of example_world ''tmp/readme.txt'' = None"
    by (simp add: example_files_def)
  have h8: "status fresh_writer = None" by simp
  from readme_scenario [OF h1 h2 h3 h4 h5 example_modes(1) h7 h8,
      of Redirect_plain "()" inner_echo]
    h1 h2 h3 h4 h5 example_modes(1) h7 h8
  show ?thesis
    by (auto simp add: observe_def)
qed

text \<open>
  The claim as written fails even in the most favourable world, the example world, whose
  working directory is the root, so that \<^verbatim>\<open>/tmp/readme.txt\<close> and \<^verbatim>\<open>tmp/readme.txt\<close> are the
  same file of 1024 bytes: the resolver is called on \<^verbatim>\<open>tmp/readme.txt\<close>, never on
  \<^verbatim>\<open>/tmp/readme.txt\<close>, and the body differs from the body of the specification, with or
  without the final newline.
\<close>

theorem readme_scenario_counterexample:
  \<open>stat_of example_world ''/tmp/readme.txt'' = Inr readme_info
   \<and> fi_Size readme_info = 1024
   \<and> fi_ModTime readme_info = RFC3339 ''2023-01-01T00:00:00Z''
   \<and> IsRegular (fi_Mode readme_info)
   \<and> open_of example_world ''/tmp/readme.txt'' = None
   \<and> observe (ServeAPI Redirect_plain ''/api'' () inner_echo fresh_writer
                (GET ''/api/stats/tmp/readme.txt'') example_world) =
       Return (Some 200, [''application/json''],
         ''{"type":"file","name":"readme.txt","path":"tmp/readme.txt","size":1024,"mtime":"2023-01-01T00:00:00Z"}''
           @ [newline],
         ''tmp/readme.txt'',
         [SysStat ''tmp/readme.txt'', SysOpen ''tmp/readme.txt'', SysClose ''tmp/readme.txt'',
          LogResp (File \<lparr>FileStat.Name = ''readme.txt'', FileStat.Path = ''tmp/readme.txt'',
                   Size = 1024, FileStat.MTime = RFC3339 ''2023-01-01T00:00:00Z''\<rparr>)])
   \<and> ''{"type":"file","name":"readme.txt","path":"tmp/readme.txt","size":1024,"mtime":"2023-01-01T00:00:00Z"}''
         @ [newline] \<noteq> spec_readme_body
   \<and> ''{"type":"file","name":"readme.txt","path":"tmp/readme.txt","size":1024,"mtime":"2023-01-01T00:00:00Z"}''
         @ [newline] \<noteq> spec_readme_body @ [newline]\<close>
proof -
  have stat: "stat_of example_world ''tmp/readme.txt'' = Inr readme_info"
    by (simp add: example_files_def)
  have opn: "open_of example_world ''tmp/readme.txt'' = None"
    by (simp add: example_files_def)
  have route: "ServeAPI Redirect_plain ''/api'' () inner_echo fresh_writer
        (GET ''/api/stats/tmp/readme.txt'') example_world =
      handleEndpoint statsEndpoint fresh_writer
        ((GET ''/api/stats/tmp/readme.txt'')\<lparr>url_path := ''tmp/readme.txt''\<rparr>) example_world"
    by (simp add: ServeAPI_def TrimRight_def HasPrefix_def GET_def)
  have enc: \<open>Marshal (MarshalJSON_FileStat \<lparr>FileStat.Name = ''readme.txt'',
            FileStat.Path = ''tmp/readme.txt'', Size = 1024,
            FileStat.MTime = RFC3339 ''2023-01-01T00:00:00Z''\<rparr>) =
      Some ''{"type":"file","name":"readme.txt","path":"tmp/readme.txt","size":1024,"mtime":"2023-01-01T00:00:00Z"}''\<close>
    by (simp add: MarshalJSON_FileStat_def Time_MarshalJSON_def json_text)
  have obs: \<open>observe (ServeAPI Redirect_plain ''/api'' () inner_echo fresh_writer
                (GET ''/api/stats/tmp/readme.txt'') example_world) =
       Return (Some 200, [''application/json''],
         ''{"type":"file","name":"readme.txt","path":"tmp/readme.txt","size":1024,"mtime":"2023-01-01T00:00:00Z"}''
           @ [newline],
         ''tmp/readme.txt'',
         [SysStat ''tmp/readme.txt'', SysOpen ''tmp/readme.txt'', SysClose ''tmp/readme.txt'',
          LogResp (File \<lparr>FileStat.Name = ''readme.txt'', FileStat.Path = ''tmp/readme.txt'',
                   Size = 1024, FileStat.MTime = RFC3339 ''2023-01-01T00:00:00Z''\<rparr>)])\<close>
    using statsEndpoint_file [OF stat example_modes(1) opn]
    by (simp add: route handleEndpoint_def observe_def emit_def Encode_def enc Write_def
        WriteHeader_def Header_Set_def StatusOK_def readme_info_def)
  have files: "stat_of example_world ''/tmp/readme.txt'' = Inr readme_info"
    "open_of example_world ''/tmp/readme.txt'' = None"
    by (simp_all add: example_files_def)
  show ?thesis
    using files example_modes(1)
    by (simp add: obs spec_readme_body_def readme_info_def)
qed

end
